theory Spec2Isabelle
  imports Main
begin

section \<open>JavaScript strings\<close>

text \<open>
  A JavaScript string is a sequence of UTF-16 code units, and \<open>length\<close>, \<open>substring\<close>,
  \<open>trim\<close>, \<open>endsWith\<close> and \<open>replace\<close> all work on code units. A string is therefore a
  list of code units, each a natural number below 65536; \<open>js\<close> turns an ASCII literal into
  such a list.
\<close>

type_synonym jsstring = "nat list"

definition js :: "string \<Rightarrow> jsstring" where
  "js s = map of_char s"

text \<open>\<open>s.substring(start, end)\<close>: both indices are clamped to \<open>0..length\<close> and swapped
  when they are out of order.\<close>

definition substring :: "jsstring \<Rightarrow> int \<Rightarrow> int \<Rightarrow> jsstring" where
  "substring s start finish =
     (let len = int (length s);
          finalStart = min (max start 0) len;
          finalEnd = min (max finish 0) len;
          from = min finalStart finalEnd;
          to = max finalStart finalEnd
      in take (nat (to - from)) (drop (nat from) s))"

text \<open>\<open>s.endsWith(suffix)\<close>.\<close>

definition endsWith :: "jsstring \<Rightarrow> jsstring \<Rightarrow> bool" where
  "endsWith s suffix =
     (length suffix \<le> length s \<and> drop (length s - length suffix) s = suffix)"

text \<open>The code units that \<open>trim\<close> removes: ECMAScript's WhiteSpace and LineTerminator.\<close>

definition isWhiteSpace :: "nat \<Rightarrow> bool" where
  "isWhiteSpace c \<longleftrightarrow>
     c = 9 \<or> c = 10 \<or> c = 11 \<or> c = 12 \<or> c = 13 \<or> c = 32 \<or> c = 160 \<or> c = 5760 \<or>
     (8192 \<le> c \<and> c \<le> 8202) \<or> c = 8232 \<or> c = 8233 \<or> c = 8239 \<or> c = 8287 \<or>
     c = 12288 \<or> c = 65279"

definition trimStart :: "jsstring \<Rightarrow> jsstring" where
  "trimStart s = dropWhile isWhiteSpace s"

definition trimEnd :: "jsstring \<Rightarrow> jsstring" where
  "trimEnd s = rev (dropWhile isWhiteSpace (rev s))"

definition trim :: "jsstring \<Rightarrow> jsstring" where
  "trim s = trimEnd (trimStart s)"

text \<open>\<open>s.replace(/c/g, replacement)\<close> for a single code unit \<open>c\<close> and a replacement
  without \<open>$\<close> patterns: every occurrence of \<open>c\<close> is replaced.\<close>

definition replaceAll :: "nat \<Rightarrow> jsstring \<Rightarrow> jsstring \<Rightarrow> jsstring" where
  "replaceAll c replacement s = concat (map (\<lambda>x. if x = c then replacement else [x]) s)"

text \<open>
  A surrogate code unit that is not part of a pair (a high surrogate followed by a low
  one) is a lone surrogate. \<open>s.toWellFormed()\<close> puts U+FFFD in the place of each lone
  surrogate, and so does the encoding of a string as UTF-8.
\<close>

definition isHighSurrogate :: "nat \<Rightarrow> bool" where
  "isHighSurrogate c \<longleftrightarrow> 55296 \<le> c \<and> c \<le> 56319"

definition isLowSurrogate :: "nat \<Rightarrow> bool" where
  "isLowSurrogate c \<longleftrightarrow> 56320 \<le> c \<and> c \<le> 57343"

fun toWellFormed :: "jsstring \<Rightarrow> jsstring" where
  "toWellFormed [] = []"
| "toWellFormed [x] = (if isHighSurrogate x \<or> isLowSurrogate x then [65533] else [x])"
| "toWellFormed (x # y # s) =
     (if isHighSurrogate x \<and> isLowSurrogate y then x # y # toWellFormed s
      else if isHighSurrogate x \<or> isLowSurrogate x then 65533 # toWellFormed (y # s)
      else x # toWellFormed (y # s))"

section \<open>The platform\<close>

text \<open>
  Node's \<open>crypto\<close> module, the \<open>jsonwebtoken\<close> library and \<open>String.prototype.toLowerCase\<close>
  are not code of this repository: the services are modelled over any implementation of
  them. \<open>jwt_verify\<close> returns \<open>None\<close> where the library throws (bad signature, expired
  token); both JWT functions depend on the clock.
\<close>

record jwt_payload =
  payload_userId :: jsstring
  payload_email :: jsstring

record platform =
  sha256_hex :: "jsstring \<Rightarrow> jsstring"
  jwt_sign :: "int \<Rightarrow> jwt_payload \<Rightarrow> jsstring"
  jwt_verify :: "int \<Rightarrow> jsstring \<Rightarrow> jwt_payload option"
  toLowerCase :: "jsstring \<Rightarrow> jsstring"

section \<open>lib/crypto.ts\<close>

definition sha256 :: "platform \<Rightarrow> jsstring \<Rightarrow> jsstring" where
  "sha256 P data = sha256_hex P data"

definition generateAnonymousId :: "platform \<Rightarrow> jsstring \<Rightarrow> jsstring \<Rightarrow> jsstring" where
  "generateAnonymousId P userId classId =
     (let hash = sha256 P (userId @ js '':'' @ classId)
      in js ''Anon_'' @ substring hash 0 6)"

section \<open>The relational store\<close>

text \<open>
  The tables of the Prisma schema, each a list of rows in insertion order. A \<open>DateTime\<close>
  is a number of milliseconds since the epoch; an optional column is an \<open>option\<close>.
  The field names are the schema's, prefixed with the model's name.
\<close>

record User =
  user_id :: jsstring
  user_email :: jsstring
  user_phoneHash :: "jsstring option"
  user_computingId :: "jsstring option"
  user_emailVerified :: bool
  user_phoneVerified :: bool
  user_createdAt :: int
  user_updatedAt :: int

record MagicLink =
  magicLink_id :: jsstring
  magicLink_userId :: jsstring
  magicLink_tokenHash :: jsstring
  magicLink_expiresAt :: int
  magicLink_used :: bool
  magicLink_createdAt :: int

record Session =
  session_id :: jsstring
  session_userId :: jsstring
  session_tokenHash :: jsstring
  session_expiresAt :: int
  session_createdAt :: int
  session_lastUsedAt :: int

text \<open>Of a \<open>Class\<close> row only the key columns are kept: no modelled query reads the
  descriptive ones (instructor, capacity, meeting times, location).\<close>

record Class =
  class_id :: jsstring
  class_subject :: jsstring
  class_catalogNumber :: jsstring
  class_term :: jsstring
  class_title :: "jsstring option"
  class_sisClassNumber :: "jsstring option"

record UserClass =
  userClass_userId :: jsstring
  userClass_classId :: jsstring
  userClass_enrolledAt :: int

datatype FriendshipStatus = PENDING | ACCEPTED | REJECTED | BLOCKED

record Friendship =
  friendship_id :: jsstring
  friendship_userId1 :: jsstring
  friendship_userId2 :: jsstring
  friendship_status :: FriendshipStatus
  friendship_createdAt :: int
  friendship_updatedAt :: int

record ClassMessage =
  classMessage_id :: jsstring
  classMessage_classId :: jsstring
  classMessage_userId :: jsstring
  classMessage_anonymousIdentifier :: jsstring
  classMessage_content :: jsstring
  classMessage_parentMessageId :: "jsstring option"
  classMessage_createdAt :: int
  classMessage_updatedAt :: int
  classMessage_flaggedCount :: int
  classMessage_hidden :: bool

record db =
  users :: "User list"
  magicLinks :: "MagicLink list"
  sessions :: "Session list"
  classes :: "Class list"
  userClasses :: "UserClass list"
  friendships :: "Friendship list"
  classMessages :: "ClassMessage list"

text \<open>
  What a service call can throw: \<open>new Error(message)\<close> of the service itself; a
  request error of the Prisma client, identified by its code (\<open>P2002\<close>: a unique
  constraint, \<open>@id\<close>, \<open>@unique\<close> or \<open>@@unique\<close>, would be violated; \<open>P2003\<close>: a foreign
  key has no target row; \<open>P2025\<close>: the row to update or delete does not exist;
  \<open>P2020\<close>: a value is out of range for its column); a request error of the client
  without a code, for a query that the database refuses for another reason; the error
  of \<open>jwt.verify\<close>; and the \<open>TypeError\<close> of reading a property of \<open>null\<close>.

  The store enforces the constraints that the schema declares. For the one row that
  carries free text of a request, the \<open>ClassMessage\<close>, it also treats text as PostgreSQL
  and its driver do: a string is sent as UTF-8, so each lone surrogate arrives as
  U+FFFD, and a string with a NUL character is refused.
\<close>

datatype error =
    Error string
  | PrismaClientKnownRequestError string
  | PrismaClientUnknownRequestError
  | JsonWebTokenError
  | TypeError

text \<open>A call returns what it returned or threw, together with the store it leaves behind:
  a call that throws after a write leaves the write in place (no transaction is used).\<close>

type_synonym 'a outcome = "(error + 'a) \<times> db"

subsection \<open>Queries and writes of the Prisma client\<close>

definition user_findUnique_email :: "db \<Rightarrow> jsstring \<Rightarrow> User option" where
  "user_findUnique_email d email = find (\<lambda>u. user_email u = email) (users d)"

definition user_findUnique_id :: "db \<Rightarrow> jsstring \<Rightarrow> User option" where
  "user_findUnique_id d uid = find (\<lambda>u. user_id u = uid) (users d)"

definition user_create :: "db \<Rightarrow> User \<Rightarrow> error + db" where
  "user_create d u =
     (if user_id u \<in> user_id ` set (users d) \<or> user_email u \<in> user_email ` set (users d)
      then Inl (PrismaClientKnownRequestError ''P2002'')
      else Inr (d\<lparr>users := users d @ [u]\<rparr>))"

definition user_update_emailVerified :: "db \<Rightarrow> int \<Rightarrow> jsstring \<Rightarrow> error + db" where
  \<comment> \<open>\<open>user.update({ where: { id }, data: { emailVerified: true } })\<close>; \<open>updatedAt\<close> is
      an \<open>@updatedAt\<close> column.\<close>
  "user_update_emailVerified d now uid =
     (if uid \<notin> user_id ` set (users d) then Inl (PrismaClientKnownRequestError ''P2025'')
      else Inr (d\<lparr>users := map (\<lambda>u. if user_id u = uid
                                    then u\<lparr>user_emailVerified := True, user_updatedAt := now\<rparr>
                                    else u) (users d)\<rparr>))"

definition magicLink_findUnique_tokenHash :: "db \<Rightarrow> jsstring \<Rightarrow> MagicLink option" where
  "magicLink_findUnique_tokenHash d h = find (\<lambda>l. magicLink_tokenHash l = h) (magicLinks d)"

definition magicLink_create :: "db \<Rightarrow> MagicLink \<Rightarrow> error + db" where
  "magicLink_create d l =
     (if magicLink_id l \<in> magicLink_id ` set (magicLinks d)
         \<or> magicLink_tokenHash l \<in> magicLink_tokenHash ` set (magicLinks d)
      then Inl (PrismaClientKnownRequestError ''P2002'')
      else if magicLink_userId l \<notin> user_id ` set (users d)
      then Inl (PrismaClientKnownRequestError ''P2003'')
      else Inr (d\<lparr>magicLinks := magicLinks d @ [l]\<rparr>))"

definition magicLink_update_used :: "db \<Rightarrow> jsstring \<Rightarrow> error + db" where
  \<comment> \<open>\<open>magicLink.update({ where: { id }, data: { used: true } })\<close>\<close>
  "magicLink_update_used d lid =
     (if lid \<notin> magicLink_id ` set (magicLinks d) then Inl (PrismaClientKnownRequestError ''P2025'')
      else Inr (d\<lparr>magicLinks := map (\<lambda>l. if magicLink_id l = lid then l\<lparr>magicLink_used := True\<rparr>
                                         else l) (magicLinks d)\<rparr>))"

definition session_findUnique_tokenHash :: "db \<Rightarrow> jsstring \<Rightarrow> Session option" where
  "session_findUnique_tokenHash d h = find (\<lambda>s. session_tokenHash s = h) (sessions d)"

definition session_create :: "db \<Rightarrow> Session \<Rightarrow> error + db" where
  "session_create d s =
     (if session_id s \<in> session_id ` set (sessions d)
         \<or> session_tokenHash s \<in> session_tokenHash ` set (sessions d)
      then Inl (PrismaClientKnownRequestError ''P2002'')
      else if session_userId s \<notin> user_id ` set (users d)
      then Inl (PrismaClientKnownRequestError ''P2003'')
      else Inr (d\<lparr>sessions := sessions d @ [s]\<rparr>))"

definition session_update_lastUsedAt :: "db \<Rightarrow> jsstring \<Rightarrow> int \<Rightarrow> error + db" where
  \<comment> \<open>\<open>session.update({ where: { id }, data: { lastUsedAt } })\<close>\<close>
  "session_update_lastUsedAt d sid t =
     (if sid \<notin> session_id ` set (sessions d) then Inl (PrismaClientKnownRequestError ''P2025'')
      else Inr (d\<lparr>sessions := map (\<lambda>s. if session_id s = sid then s\<lparr>session_lastUsedAt := t\<rparr>
                                       else s) (sessions d)\<rparr>))"

definition session_delete_tokenHash :: "db \<Rightarrow> jsstring \<Rightarrow> error + db" where
  \<comment> \<open>\<open>session.delete({ where: { tokenHash } })\<close>\<close>
  "session_delete_tokenHash d h =
     (if h \<notin> session_tokenHash ` set (sessions d) then Inl (PrismaClientKnownRequestError ''P2025'')
      else Inr (d\<lparr>sessions := filter (\<lambda>s. session_tokenHash s \<noteq> h) (sessions d)\<rparr>))"

definition magicLink_include_user :: "db \<Rightarrow> MagicLink \<Rightarrow> User option" where
  \<comment> \<open>\<open>include: { user: true }\<close>: the row that the link's \<open>userId\<close> refers to\<close>
  "magicLink_include_user d l = find (\<lambda>u. user_id u = magicLink_userId l) (users d)"

definition userClass_findUnique :: "db \<Rightarrow> jsstring \<Rightarrow> jsstring \<Rightarrow> UserClass option" where
  "userClass_findUnique d userId classId =
     find (\<lambda>e. userClass_userId e = userId \<and> userClass_classId e = classId) (userClasses d)"

definition friendship_between :: "jsstring \<Rightarrow> jsstring \<Rightarrow> Friendship \<Rightarrow> bool" where
  \<comment> \<open>\<open>where: { OR: [{ userId1: a, userId2: b }, { userId1: b, userId2: a }] }\<close>\<close>
  "friendship_between a b f \<longleftrightarrow>
     (friendship_userId1 f = a \<and> friendship_userId2 f = b)
     \<or> (friendship_userId1 f = b \<and> friendship_userId2 f = a)"

definition friendship_findFirst_between :: "db \<Rightarrow> jsstring \<Rightarrow> jsstring \<Rightarrow> Friendship option" where
  "friendship_findFirst_between d a b = find (friendship_between a b) (friendships d)"

definition friendship_pair :: "Friendship \<Rightarrow> jsstring \<times> jsstring" where
  \<comment> \<open>the columns of \<open>@@unique([userId1, userId2])\<close>\<close>
  "friendship_pair f = (friendship_userId1 f, friendship_userId2 f)"

definition friendship_create :: "db \<Rightarrow> Friendship \<Rightarrow> error + db" where
  "friendship_create d f =
     (if friendship_id f \<in> friendship_id ` set (friendships d)
         \<or> friendship_pair f \<in> friendship_pair ` set (friendships d)
      then Inl (PrismaClientKnownRequestError ''P2002'')
      else if friendship_userId1 f \<notin> user_id ` set (users d)
              \<or> friendship_userId2 f \<notin> user_id ` set (users d)
      then Inl (PrismaClientKnownRequestError ''P2003'')
      else Inr (d\<lparr>friendships := friendships d @ [f]\<rparr>))"


definition classMessage_text :: "ClassMessage \<Rightarrow> jsstring list" where
  \<comment> \<open>the text values of a row\<close>
  "classMessage_text m =
     [classMessage_id m, classMessage_classId m, classMessage_userId m,
      classMessage_anonymousIdentifier m, classMessage_content m]
     @ (case classMessage_parentMessageId m of None \<Rightarrow> [] | Some parent \<Rightarrow> [parent])"

definition classMessage_encoded :: "ClassMessage \<Rightarrow> ClassMessage" where
  \<comment> \<open>the row as it arrives at the database\<close>
  "classMessage_encoded m =
     m\<lparr>classMessage_id := toWellFormed (classMessage_id m),
       classMessage_classId := toWellFormed (classMessage_classId m),
       classMessage_userId := toWellFormed (classMessage_userId m),
       classMessage_anonymousIdentifier := toWellFormed (classMessage_anonymousIdentifier m),
       classMessage_content := toWellFormed (classMessage_content m),
       classMessage_parentMessageId := map_option toWellFormed (classMessage_parentMessageId m)\<rparr>"

definition classMessage_create :: "db \<Rightarrow> ClassMessage \<Rightarrow> error + (ClassMessage \<times> db)" where
  \<comment> \<open>\<open>classMessage.create({ data })\<close>, which returns the row as stored\<close>
  "classMessage_create d m =
     (if list_ex (\<lambda>s. 0 \<in> set s) (classMessage_text m)
      then Inl PrismaClientUnknownRequestError
      else
        let stored = classMessage_encoded m
        in if classMessage_id stored \<in> classMessage_id ` set (classMessages d)
           then Inl (PrismaClientKnownRequestError ''P2002'')
           else if classMessage_classId stored \<notin> class_id ` set (classes d)
                   \<or> classMessage_userId stored \<notin> user_id ` set (users d)
                   \<or> (case classMessage_parentMessageId stored of
                         None \<Rightarrow> False
                       | Some parent \<Rightarrow> parent \<notin> classMessage_id ` set (classMessages d))
           then Inl (PrismaClientKnownRequestError ''P2003'')
           else Inr (stored, d\<lparr>classMessages := classMessages d @ [stored]\<rparr>))"



section \<open>services/auth.service.ts\<close>

text \<open>
  Each call is modelled with what it draws from outside the store: \<open>now\<close> is the clock
  reading of the request (one reading for the whole request), a \<open>uuid\<close> is the identifier
  that the store's \<open>@default(uuid())\<close> gives to an inserted row, \<open>token\<close> in
  \<open>requestMagicLink\<close> is the value of \<open>crypto.generateToken(32)\<close>, and \<open>delivered\<close> tells
  whether \<open>emailService.sendMagicLink\<close> returned rather than threw.
\<close>

definition requestMagicLink ::
  "platform \<Rightarrow> int \<Rightarrow> jsstring \<Rightarrow> jsstring \<Rightarrow> jsstring \<Rightarrow> bool \<Rightarrow> jsstring \<Rightarrow> db \<Rightarrow> unit outcome" where
  "requestMagicLink P now userUuid linkUuid token delivered email d =
     (if \<not> endsWith email (js ''@virginia.edu'')
      then (Inl (Error ''Only @virginia.edu emails are allowed''), d)
      else
        let normalizedEmail = trim (toLowerCase P email);
            created = \<lparr>user_id = userUuid, user_email = normalizedEmail, user_phoneHash = None,
                       user_computingId = None, user_emailVerified = False,
                       user_phoneVerified = False, user_createdAt = now, user_updatedAt = now\<rparr>;
            found = (case user_findUnique_email d normalizedEmail of
                       Some user \<Rightarrow> Inr (user, d)
                     | None \<Rightarrow> map_sum id (Pair created) (user_create d created))
        in (case found of
              Inl e \<Rightarrow> (Inl e, d)
            | Inr (user, d1) \<Rightarrow>
                (let tokenHash = sha256 P token;
                     stored = magicLink_create d1
                         \<lparr>magicLink_id = linkUuid, magicLink_userId = user_id user,
                          magicLink_tokenHash = tokenHash,
                          magicLink_expiresAt = now + 15 * 60 * 1000,
                          magicLink_used = False, magicLink_createdAt = now\<rparr>
                 in (case stored of
                       Inl e \<Rightarrow> (Inl e, d1)
                     | Inr d2 \<Rightarrow>
                         (if delivered then (Inr (), d2)
                          else (Inl (Error ''Failed to send magic link email''), d2))))))"

definition verifyMagicLink ::
  "platform \<Rightarrow> int \<Rightarrow> jsstring \<Rightarrow> jsstring \<Rightarrow> db \<Rightarrow> (User \<times> jsstring) outcome" where
  "verifyMagicLink P now sessionUuid token d =
     (let tokenHash = sha256 P token
      in (case magicLink_findUnique_tokenHash d tokenHash of
            None \<Rightarrow> (Inl (Error ''Invalid or expired magic link''), d)
          | Some magicLink \<Rightarrow>
             (let linkUser = magicLink_include_user d magicLink
              in if magicLink_expiresAt magicLink < now
                 then (Inl (Error ''Magic link has expired''), d)
                 else if magicLink_used magicLink
                 then (Inl (Error ''Magic link has already been used''), d)
                 else
                  (case magicLink_update_used d (magicLink_id magicLink) of
                     Inl e \<Rightarrow> (Inl e, d)
                   | Inr d1 \<Rightarrow>
                      (case user_update_emailVerified d1 now (magicLink_userId magicLink) of
                         Inl e \<Rightarrow> (Inl e, d1)
                       | Inr d2 \<Rightarrow>
                           (case linkUser of
                              None \<Rightarrow> (Inl TypeError, d2)
                            | Some user \<Rightarrow>
                               (let jwtToken = jwt_sign P now
                                      \<lparr>payload_userId = user_id user,
                                       payload_email = user_email user\<rparr>;
                                    sessionTokenHash = sha256 P jwtToken;
                                    stored = session_create d2
                                          \<lparr>session_id = sessionUuid, session_userId = user_id user,
                                           session_tokenHash = sessionTokenHash,
                                           session_expiresAt = now + 7 * 24 * 60 * 60 * 1000,
                                           session_createdAt = now, session_lastUsedAt = now\<rparr>
                                in (case stored of
                                      Inl e \<Rightarrow> (Inl e, d2)
                                    | Inr d3 \<Rightarrow> (Inr (user, jwtToken), d3)))))))))"

text \<open>The body of the \<open>try\<close> block of \<open>validateToken\<close>, and the function itself, whose
  \<open>catch\<close> replaces whatever the body threw.\<close>

definition validateToken_try :: "platform \<Rightarrow> int \<Rightarrow> jsstring \<Rightarrow> db \<Rightarrow> jwt_payload outcome" where
  "validateToken_try P now token d =
     (case jwt_verify P now token of
        None \<Rightarrow> (Inl JsonWebTokenError, d)
      | Some decoded \<Rightarrow>
         (let tokenHash = sha256 P token
          in (case session_findUnique_tokenHash d tokenHash of
                None \<Rightarrow> (Inl (Error ''Session expired''), d)
              | Some session \<Rightarrow>
                 (if session_expiresAt session < now
                  then (Inl (Error ''Session expired''), d)
                  else
                   (case session_update_lastUsedAt d (session_id session) now of
                      Inl e \<Rightarrow> (Inl e, d)
                    | Inr d1 \<Rightarrow> (Inr decoded, d1))))))"

definition validateToken :: "platform \<Rightarrow> int \<Rightarrow> jsstring \<Rightarrow> db \<Rightarrow> jwt_payload outcome" where
  "validateToken P now token d =
     (case validateToken_try P now token d of
        (Inl error, d1) \<Rightarrow> (Inl (Error ''Invalid token''), d1)
      | (Inr decoded, d1) \<Rightarrow> (Inr decoded, d1))"

definition logout :: "platform \<Rightarrow> jsstring \<Rightarrow> db \<Rightarrow> unit outcome" where
  "logout P token d =
     (let tokenHash = sha256 P token
      in case session_delete_tokenHash d tokenHash of
           Inl e \<Rightarrow> (Inr (), d)
         | Inr d1 \<Rightarrow> (Inr (), d1))"

text \<open>A sequence of \<open>validateToken\<close> calls, each with its own clock reading and
  credential, whatever each of them returns or throws.\<close>

fun validateTokens :: "platform \<Rightarrow> (int \<times> jsstring) list \<Rightarrow> db \<Rightarrow> db" where
  "validateTokens P [] d = d"
| "validateTokens P ((now, token) # calls) d =
     validateTokens P calls (snd (validateToken P now token d))"

text \<open>
  Between two \<open>await\<close>s a request runs alone, and other requests run while it waits for
  the store. One call of \<open>verifyMagicLink\<close> is therefore four atomic steps, one for each
  awaited query together with the synchronous code that follows it; a task records where
  the call stands and what it holds in its local variables.
\<close>

datatype verify_task =
    AtFindUnique jsstring
  | AtMarkUsed MagicLink "User option"
  | AtVerifyEmail MagicLink "User option"
  | AtCreateSession MagicLink "User option"
  | Returned User jsstring
  | Threw error

fun verify_step :: "platform \<Rightarrow> int \<Rightarrow> jsstring \<Rightarrow> verify_task \<Rightarrow> db \<Rightarrow> verify_task \<times> db" where
  "verify_step P now sessionUuid (AtFindUnique token) d =
     (case magicLink_findUnique_tokenHash d (sha256 P token) of
        None \<Rightarrow> (Threw (Error ''Invalid or expired magic link''), d)
      | Some magicLink \<Rightarrow>
         (if magicLink_expiresAt magicLink < now
          then (Threw (Error ''Magic link has expired''), d)
          else if magicLink_used magicLink
          then (Threw (Error ''Magic link has already been used''), d)
          else (AtMarkUsed magicLink (magicLink_include_user d magicLink), d)))"
| "verify_step P now sessionUuid (AtMarkUsed magicLink linkUser) d =
     (case magicLink_update_used d (magicLink_id magicLink) of
        Inl e \<Rightarrow> (Threw e, d)
      | Inr d1 \<Rightarrow> (AtVerifyEmail magicLink linkUser, d1))"
| "verify_step P now sessionUuid (AtVerifyEmail magicLink linkUser) d =
     (case user_update_emailVerified d now (magicLink_userId magicLink) of
        Inl e \<Rightarrow> (Threw e, d)
      | Inr d1 \<Rightarrow> (AtCreateSession magicLink linkUser, d1))"
| "verify_step P now sessionUuid (AtCreateSession magicLink linkUser) d =
     (case linkUser of
        None \<Rightarrow> (Threw TypeError, d)
      | Some user \<Rightarrow>
         (let jwtToken = jwt_sign P now
                \<lparr>payload_userId = user_id user, payload_email = user_email user\<rparr>;
              sessionTokenHash = sha256 P jwtToken;
              stored = session_create d
                    \<lparr>session_id = sessionUuid, session_userId = user_id user,
                     session_tokenHash = sessionTokenHash,
                     session_expiresAt = now + 7 * 24 * 60 * 60 * 1000,
                     session_createdAt = now, session_lastUsedAt = now\<rparr>
          in (case stored of
                Inl e \<Rightarrow> (Threw e, d)
              | Inr d1 \<Rightarrow> (Returned user jwtToken, d1))))"
| "verify_step P now sessionUuid (Returned user jwtToken) d = (Returned user jwtToken, d)"
| "verify_step P now sessionUuid (Threw e) d = (Threw e, d)"

text \<open>One request run to its end without any other request in between.\<close>

definition verify_alone :: "platform \<Rightarrow> int \<Rightarrow> jsstring \<Rightarrow> jsstring \<Rightarrow> db \<Rightarrow> verify_task \<times> db" where
  "verify_alone P now sessionUuid token d =
     (let step = (\<lambda>(t, d). verify_step P now sessionUuid t d)
      in step (step (step (step (AtFindUnique token, d)))))"

text \<open>Two requests in flight: the schedule says, step by step, which of them the store
  serves next (\<open>True\<close> the first, \<open>False\<close> the second). Each request has its own clock
  reading and session identifier.\<close>

fun interleave ::
  "platform \<Rightarrow> int \<times> jsstring \<Rightarrow> int \<times> jsstring \<Rightarrow> bool list
     \<Rightarrow> verify_task \<times> verify_task \<times> db \<Rightarrow> verify_task \<times> verify_task \<times> db" where
  "interleave P c1 c2 [] s = s"
| "interleave P c1 c2 (first # schedule) (t1, t2, d) =
     (if first
      then (case verify_step P (fst c1) (snd c1) t1 d of
              (t1', d') \<Rightarrow> interleave P c1 c2 schedule (t1', t2, d'))
      else (case verify_step P (fst c2) (snd c2) t2 d of
              (t2', d') \<Rightarrow> interleave P c1 c2 schedule (t1, t2', d')))"

section \<open>services/friends.service.ts\<close>

definition sendFriendRequest ::
  "int \<Rightarrow> jsstring \<Rightarrow> jsstring \<Rightarrow> jsstring \<Rightarrow> db
     \<Rightarrow> (Friendship \<times> (jsstring \<times> jsstring \<times> jsstring option) option) outcome" where
  "sendFriendRequest now uuid fromUserId toUserId d =
     (if fromUserId = toUserId
      then (Inl (Error ''Cannot send friend request to yourself''), d)
      else
        let existing = friendship_findFirst_between d fromUserId toUserId;
            friendship = \<lparr>friendship_id = uuid, friendship_userId1 = fromUserId,
                          friendship_userId2 = toUserId, friendship_status = PENDING,
                          friendship_createdAt = now, friendship_updatedAt = now\<rparr>;
            create = (case friendship_create d friendship of
                        Inl e \<Rightarrow> (Inl e, d)
                      | Inr d1 \<Rightarrow>
                          (Inr (friendship,
                                map_option (\<lambda>u. (user_id u, user_email u, user_computingId u))
                                  (user_findUnique_id d1 toUserId)), d1))
        in (case existing of
              None \<Rightarrow> create
            | Some found \<Rightarrow>
               (if friendship_status found = ACCEPTED
                then (Inl (Error ''Already friends''), d)
                else if friendship_status found = PENDING
                then (Inl (Error ''Friend request already sent''), d)
                else create)))"

section \<open>services/messages.service.ts\<close>

text \<open>A row of \<open>findMany\<close> with its included \<open>replies\<close> relation.\<close>

record MessageWithReplies =
  msg_row :: ClassMessage
  msg_replies :: "ClassMessage list"

record Pagination =
  pagination_total :: nat
  pagination_limit :: nat
  pagination_offset :: nat
  pagination_hasMore :: bool

text \<open>\<open>orderBy: { createdAt: 'desc' }\<close>. The store leaves the order of rows with equal
  \<open>createdAt\<close> open; here they stay in table order.\<close>

definition orderBy_createdAt_desc :: "ClassMessage list \<Rightarrow> ClassMessage list" where
  "orderBy_createdAt_desc ms = sort_key (\<lambda>m. - classMessage_createdAt m) ms"

text \<open>Of more than five visible replies the store includes the first five in the order
  of their identifiers; here they are the first five in table order. Their number, which
  is all that the controller reads, is the same.\<close>

definition include_replies :: "db \<Rightarrow> ClassMessage \<Rightarrow> ClassMessage list" where
  \<comment> \<open>\<open>include: { replies: { where: { hidden: false }, take: 5 } }\<close>\<close>
  "include_replies d m =
     take 5 (filter (\<lambda>r. classMessage_parentMessageId r = Some (classMessage_id m)
                         \<and> \<not> classMessage_hidden r) (classMessages d))"

definition getClassMessages ::
  "jsstring \<Rightarrow> nat \<Rightarrow> nat \<Rightarrow> db \<Rightarrow> MessageWithReplies list \<times> Pagination" where
  "getClassMessages classId limit offset d =
     (let visible = filter (\<lambda>m. classMessage_classId m = classId \<and> \<not> classMessage_hidden m)
                      (classMessages d);
          page = take limit (drop offset (orderBy_createdAt_desc visible));
          messages = map (\<lambda>m. \<lparr>msg_row = m, msg_replies = include_replies d m\<rparr>) page;
          total = length visible
      in (messages,
          \<lparr>pagination_total = total, pagination_limit = limit, pagination_offset = offset,
           pagination_hasMore = (offset + length messages < total)\<rparr>))"

definition escapeMarkup :: "jsstring \<Rightarrow> jsstring" where
  \<comment> \<open>\<open>content.replace(/</g, '&lt;').replace(/>/g, '&gt;')\<close>\<close>
  "escapeMarkup content =
     replaceAll (of_char CHR ''>'') (js ''&gt;'') (replaceAll (of_char CHR ''<'') (js ''&lt;'') content)"

definition sanitize :: "jsstring \<Rightarrow> jsstring" where
  \<comment> \<open>\<open>content.replace(/</g, '&lt;').replace(/>/g, '&gt;').trim()\<close>\<close>
  "sanitize content = trim (escapeMarkup content)"

definition createMessage ::
  "platform \<Rightarrow> int \<Rightarrow> jsstring \<Rightarrow> jsstring \<Rightarrow> jsstring \<Rightarrow> jsstring \<Rightarrow> jsstring option \<Rightarrow> db
     \<Rightarrow> ClassMessage outcome" where
  "createMessage P now uuid userId classId content parentMessageId d =
     (case userClass_findUnique d userId classId of
        None \<Rightarrow> (Inl (Error ''You must be enrolled in this class to post messages''), d)
      | Some enrollment \<Rightarrow>
         (let anonymousIdentifier = generateAnonymousId P userId classId;
              sanitizedContent = sanitize content
          in if sanitizedContent = [] \<or> length sanitizedContent > 1000
             then (Inl (Error ''Message content must be between 1 and 1000 characters''), d)
             else
              (let message = \<lparr>classMessage_id = uuid, classMessage_classId = classId,
                              classMessage_userId = userId,
                              classMessage_anonymousIdentifier = anonymousIdentifier,
                              classMessage_content = sanitizedContent,
                              classMessage_parentMessageId = parentMessageId,
                              classMessage_createdAt = now, classMessage_updatedAt = now,
                              classMessage_flaggedCount = 0, classMessage_hidden = False\<rparr>
               in (case classMessage_create d message of
                     Inl e \<Rightarrow> (Inl e, d)
                   | Inr (stored, d1) \<Rightarrow> (Inr stored, d1)))))"


definition isUserEnrolledInClass :: "db \<Rightarrow> jsstring \<Rightarrow> jsstring \<Rightarrow> bool" where
  "isUserEnrolledInClass d userId classId = (userClass_findUnique d userId classId \<noteq> None)"


section \<open>controllers/messages.controller.ts\<close>

record MessageView =
  view_id :: jsstring
  view_anonymousIdentifier :: jsstring
  view_content :: jsstring
  view_createdAt :: int
  view_replyCount :: nat
  view_isOwnMessage :: bool

datatype messages_response =
    Forbidden403
  | Success200 "MessageView list" Pagination

text \<open>\<open>limitQuery\<close> and \<open>offsetQuery\<close> are what \<open>parseInt\<close> makes of the query parameters,
  \<open>None\<close> for \<open>NaN\<close>; \<open>parseInt(...) || 50\<close> also replaces a parsed 0. Only query values
  that parse to a number from 0 upwards are covered, here and in \<open>getClassMessages\<close>:
  a negative \<open>take\<close> or \<open>skip\<close> is outside the model.\<close>

definition messagesController_getClassMessages ::
  "jsstring \<Rightarrow> jsstring \<Rightarrow> nat option \<Rightarrow> nat option \<Rightarrow> db \<Rightarrow> messages_response" where
  "messagesController_getClassMessages userId classId limitQuery offsetQuery d =
     (let limit = (case limitQuery of None \<Rightarrow> 50 | Some n \<Rightarrow> if n = 0 then 50 else n);
          offset = (case offsetQuery of None \<Rightarrow> 0 | Some n \<Rightarrow> n)
      in if \<not> isUserEnrolledInClass d userId classId then Forbidden403
         else
          (case getClassMessages classId limit offset d of
             (messages, pagination) \<Rightarrow>
               Success200
                 (map (\<lambda>msg. \<lparr>view_id = classMessage_id (msg_row msg),
                               view_anonymousIdentifier = classMessage_anonymousIdentifier (msg_row msg),
                               view_content = classMessage_content (msg_row msg),
                               view_createdAt = classMessage_createdAt (msg_row msg),
                               view_replyCount = length (msg_replies msg),
                               view_isOwnMessage = (classMessage_userId (msg_row msg) = userId)\<rparr>)
                    messages)
                 pagination))"

section \<open>Notions used in the statements\<close>

text \<open>What the two \<open>replace\<close> calls of \<open>createMessage\<close> make of one code unit.\<close>

definition escapeUnit :: "nat \<Rightarrow> jsstring" where
  "escapeUnit x = (if x = 60 then js ''&lt;'' else if x = 62 then js ''&gt;'' else [x])"

text \<open>Text that the store keeps as it is: no NUL character and no lone surrogate.\<close>

definition storable :: "jsstring \<Rightarrow> bool" where
  "storable s \<longleftrightarrow> 0 \<notin> set s \<and> toWellFormed s = s"

text \<open>The store takes a new \<open>ClassMessage\<close> row as it is: its text is storable, its
  identifier is fresh and its foreign keys have their target rows.\<close>

definition accepts_message :: "db \<Rightarrow> ClassMessage \<Rightarrow> bool" where
  "accepts_message d m \<longleftrightarrow>
     list_all storable (classMessage_text m)
     \<and> classMessage_id m \<notin> classMessage_id ` set (classMessages d)
     \<and> classMessage_classId m \<in> class_id ` set (classes d)
     \<and> classMessage_userId m \<in> user_id ` set (users d)
     \<and> (case classMessage_parentMessageId m of
          None \<Rightarrow> True
        | Some parent \<Rightarrow> parent \<in> classMessage_id ` set (classMessages d))"


section \<open>Example inputs\<close>

text \<open>
  A toy platform for the closed examples: the digest is a tagged copy of its input, and
  the JWT library issues one of two tokens for a user, depending on the second in which
  it signs (before or from the clock reading 5000), and accepts exactly those two tokens
  of user \<open>u1\<close>.
\<close>

definition example_platform :: platform where
  "example_platform =
     \<lparr>sha256_hex = (\<lambda>s. js ''digest-of-'' @ s),
      jwt_sign = (\<lambda>t p. js ''jwt-'' @ payload_userId p @ (if t < 5000 then js ''-a'' else js ''-b'')),
      jwt_verify = (\<lambda>t token.
         if token = js ''jwt-u1-a'' \<or> token = js ''jwt-u1-b''
         then Some \<lparr>payload_userId = js ''u1'', payload_email = js ''bob@virginia.edu''\<rparr>
         else None),
      toLowerCase = (\<lambda>s. s)\<rparr>"

definition empty_db :: db where
  "empty_db = \<lparr>users = [], magicLinks = [], sessions = [], classes = [], userClasses = [],
                friendships = [], classMessages = []\<rparr>"

definition bob :: User where
  "bob = \<lparr>user_id = js ''u1'', user_email = js ''bob@virginia.edu'', user_phoneHash = None,
           user_computingId = None, user_emailVerified = False, user_phoneVerified = False,
           user_createdAt = 0, user_updatedAt = 0\<rparr>"

definition alice :: User where
  "alice = \<lparr>user_id = js ''u2'', user_email = js ''alice@virginia.edu'', user_phoneHash = None,
             user_computingId = Some (js ''abc1de''), user_emailVerified = True,
             user_phoneVerified = False, user_createdAt = 0, user_updatedAt = 0\<rparr>"

text \<open>Bob has asked for a magic link; the token mailed to him is \<open>c0ffee\<close>.\<close>

definition bob_link :: MagicLink where
  "bob_link = \<lparr>magicLink_id = js ''l1'', magicLink_userId = js ''u1'',
                magicLink_tokenHash = js ''digest-of-c0ffee'', magicLink_expiresAt = 900000,
                magicLink_used = False, magicLink_createdAt = 0\<rparr>"

definition db_link_issued :: db where
  "db_link_issued = empty_db\<lparr>users := [bob], magicLinks := [bob_link]\<rparr>"

definition db_link_used :: db where
  "db_link_used = empty_db\<lparr>users := [bob], magicLinks := [bob_link\<lparr>magicLink_used := True\<rparr>]\<rparr>"

text \<open>The store after Bob has verified the link at clock reading 1000, after he has then
  used the session a day later, and after he has logged out.\<close>

definition bob_session :: Session where
  "bob_session = \<lparr>session_id = js ''s1'', session_userId = js ''u1'',
                   session_tokenHash = js ''digest-of-jwt-u1-a'', session_expiresAt = 604801000,
                   session_createdAt = 1000, session_lastUsedAt = 1000\<rparr>"

definition db_logged_in :: db where
  "db_logged_in = empty_db
     \<lparr>users := [bob\<lparr>user_emailVerified := True, user_updatedAt := 1000\<rparr>],
      magicLinks := [bob_link\<lparr>magicLink_used := True\<rparr>],
      sessions := [bob_session]\<rparr>"

definition db_session_used :: db where
  "db_session_used = db_logged_in\<lparr>sessions := [bob_session\<lparr>session_lastUsedAt := 86400000\<rparr>]\<rparr>"

definition db_logged_out :: db where
  "db_logged_out = db_logged_in\<lparr>sessions := []\<rparr>"

text \<open>The store after two overlapping verifications of Bob's link, at clock readings 4999
  and 5000.\<close>

definition db_two_sessions :: db where
  "db_two_sessions = empty_db
     \<lparr>users := [bob\<lparr>user_emailVerified := True, user_updatedAt := 5000\<rparr>],
      magicLinks := [bob_link\<lparr>magicLink_used := True\<rparr>],
      sessions := [\<lparr>session_id = js ''s1'', session_userId = js ''u1'',
                    session_tokenHash = js ''digest-of-jwt-u1-a'', session_expiresAt = 604804999,
                    session_createdAt = 4999, session_lastUsedAt = 4999\<rparr>,
                   \<lparr>session_id = js ''s2'', session_userId = js ''u1'',
                    session_tokenHash = js ''digest-of-jwt-u1-b'', session_expiresAt = 604805000,
                    session_createdAt = 5000, session_lastUsedAt = 5000\<rparr>]\<rparr>"

text \<open>Friend requests between Bob and Alice.\<close>

definition request_of :: "string \<Rightarrow> string \<Rightarrow> string \<Rightarrow> FriendshipStatus \<Rightarrow> int \<Rightarrow> Friendship" where
  "request_of fid sender recipient status t =
     \<lparr>friendship_id = js fid, friendship_userId1 = js sender, friendship_userId2 = js recipient,
      friendship_status = status, friendship_createdAt = t, friendship_updatedAt = t\<rparr>"

definition db_rejected :: db where
  "db_rejected = empty_db\<lparr>users := [bob, alice],
                           friendships := [request_of ''f1'' ''u1'' ''u2'' REJECTED 100]\<rparr>"

definition db_pending :: db where
  "db_pending = empty_db\<lparr>users := [bob, alice],
                          friendships := [request_of ''f1'' ''u1'' ''u2'' PENDING 100]\<rparr>"

text \<open>Bob is enrolled in a class; its messages are all his.\<close>

definition cs3120 :: Class where
  "cs3120 = \<lparr>class_id = js ''c1'', class_subject = js ''CS'', class_catalogNumber = js ''3120'',
              class_term = js ''1262'', class_title = None, class_sisClassNumber = Some (js ''15000'')\<rparr>"

definition bob_in_cs3120 :: UserClass where
  "bob_in_cs3120 = \<lparr>userClass_userId = js ''u1'', userClass_classId = js ''c1'',
                     userClass_enrolledAt = 50\<rparr>"

definition bob_post :: "string \<Rightarrow> string option \<Rightarrow> int \<Rightarrow> ClassMessage" where
  "bob_post mid parent t =
     \<lparr>classMessage_id = js mid, classMessage_classId = js ''c1'', classMessage_userId = js ''u1'',
      classMessage_anonymousIdentifier = js ''Anon_digest'', classMessage_content = js ''hello'',
      classMessage_parentMessageId = map_option js parent,
      classMessage_createdAt = t, classMessage_updatedAt = t,
      classMessage_flaggedCount = 0, classMessage_hidden = False\<rparr>"

definition db_class :: db where
  "db_class = empty_db\<lparr>users := [bob], classes := [cs3120], userClasses := [bob_in_cs3120]\<rparr>"

definition db_one_post :: db where
  "db_one_post = db_class\<lparr>classMessages := [bob_post ''m0'' None 100]\<rparr>"

definition five_flags :: "(int \<times> jsstring) list" where
  "five_flags =
     [(201, js ''u1''), (202, js ''u1''), (203, js ''u1''), (204, js ''u1''), (205, js ''u1'')]"

text \<open>A message with six visible replies.\<close>

definition db_thread :: db where
  "db_thread = db_class
     \<lparr>classMessages :=
        [bob_post ''m0'' None 100,
         bob_post ''r1'' (Some ''m0'') 101, bob_post ''r2'' (Some ''m0'') 102,
         bob_post ''r3'' (Some ''m0'') 103, bob_post ''r4'' (Some ''m0'') 104,
         bob_post ''r5'' (Some ''m0'') 105, bob_post ''r6'' (Some ''m0'') 106]\<rparr>"

text \<open>A message of 251 characters, each of them \<open><\<close>, and the store after Bob has posted
  \<open><b>hi</b>\<close> between blanks.\<close>

definition angle_brackets :: jsstring where
  "angle_brackets = replicate 251 (of_char CHR ''<'')"

definition db_posted :: db where
  "db_posted = db_class
     \<lparr>classMessages :=
        [\<lparr>classMessage_id = js ''m1'', classMessage_classId = js ''c1'',
          classMessage_userId = js ''u1'',
          classMessage_anonymousIdentifier = js ''Anon_digest'',
          classMessage_content = js ''&lt;b&gt;hi&lt;/b&gt;'',
          classMessage_parentMessageId = None, classMessage_createdAt = 1000,
          classMessage_updatedAt = 1000, classMessage_flaggedCount = 0,
          classMessage_hidden = False\<rparr>]\<rparr>"

section \<open>Lists and strings\<close>

lemma find_map_preserving:
  "(\<And>x. Q (f x) = Q x) \<Longrightarrow> find Q (map f xs) = map_option f (find Q xs)"
  by (induction xs) simp_all

lemma find_Some_member: "find Q xs = Some x \<Longrightarrow> x \<in> set xs \<and> Q x"
  by (induction xs) (auto split: if_splits)

lemma find_exists: "x \<in> set xs \<Longrightarrow> Q x \<Longrightarrow> \<exists>y. find Q xs = Some y"
  by (induction xs) auto



lemma find_filter_None: "find Q (filter (\<lambda>x. \<not> Q x) xs) = None"
  by (induction xs) simp_all

lemma substring_prefix: "0 \<le> n \<Longrightarrow> substring s 0 n = take (nat n) s"
  by (simp add: substring_def Let_def min_def max_def)

lemma lt_units: "js ''&lt;'' = [38, 108, 116, 59]"
  and gt_units: "js ''&gt;'' = [38, 103, 116, 59]"
  and lt_unit: "of_char CHR ''<'' = (60::nat)"
  and gt_unit: "of_char CHR ''>'' = (62::nat)"
  by (simp_all add: js_def)

lemma entity_units_visible:
  "\<not> isWhiteSpace 38" "\<not> isWhiteSpace 59" "\<not> isWhiteSpace 60" "\<not> isWhiteSpace 62"
  by (simp_all add: isWhiteSpace_def)

lemma trim_visible_ends:
  "s \<noteq> [] \<Longrightarrow> \<not> isWhiteSpace (hd s) \<Longrightarrow> \<not> isWhiteSpace (last s) \<Longrightarrow> trim s = s"
proof -
  assume s: "s \<noteq> []" and first: "\<not> isWhiteSpace (hd s)" and final: "\<not> isWhiteSpace (last s)"
  have "trimStart s = s"
    using first by (simp add: trimStart_def dropWhile_eq_self_iff)
  moreover have "dropWhile isWhiteSpace (rev s) = rev s"
    using s final by (simp add: dropWhile_eq_self_iff hd_rev)
  ultimately show ?thesis by (simp add: trim_def trimEnd_def)
qed

text \<open>Dropping a prefix commutes with a code-unit-wise expansion that leaves the dropped
  units alone and never starts an expansion of another unit with one of them.\<close>

lemma dropWhile_concat_map:
  assumes "\<And>x. Q x \<Longrightarrow> g x = [x]"
    and "\<And>x. \<not> Q x \<Longrightarrow> g x \<noteq> [] \<and> \<not> Q (hd (g x))"
  shows "dropWhile Q (concat (map g s)) = concat (map g (dropWhile Q s))"
proof (induction s)
  case Nil
  show ?case by simp
next
  case (Cons x s)
  show ?case
  proof (cases "Q x")
    case True
    with assms(1) Cons show ?thesis by simp
  next
    case False
    from assms(2) [OF False] have "g x \<noteq> []" "\<not> Q (hd (g x))" by simp_all
    then obtain y ys where "g x = y # ys" "\<not> Q y"
      by (cases "g x") simp_all
    with False show ?thesis by simp
  qed
qed

section \<open>Escaping and trimming\<close>

lemma replaceAll_units:
  "replaceAll 62 [38, 103, 116, 59] (replaceAll 60 [38, 108, 116, 59] s) = concat (map escapeUnit s)"
  by (induction s) (simp_all add: replaceAll_def escapeUnit_def lt_units gt_units)

lemma escapeMarkup_units: "escapeMarkup s = concat (map escapeUnit s)"
  by (simp add: escapeMarkup_def lt_units gt_units lt_unit gt_unit replaceAll_units)

lemma escapeUnit_whitespace: "isWhiteSpace x \<Longrightarrow> escapeUnit x = [x]"
  using entity_units_visible by (auto simp: escapeUnit_def)

lemma escapeUnit_visible:
  "\<not> isWhiteSpace x \<Longrightarrow> escapeUnit x \<noteq> [] \<and> \<not> isWhiteSpace (hd (escapeUnit x))
      \<and> \<not> isWhiteSpace (last (escapeUnit x))"
  using entity_units_visible by (simp add: escapeUnit_def lt_units gt_units)

lemma escapeUnit_nonempty: "escapeUnit x \<noteq> []"
  by (simp add: escapeUnit_def lt_units gt_units)

lemma escapeUnit_no_markup: "60 \<notin> set (escapeUnit x) \<and> 62 \<notin> set (escapeUnit x)"
  by (simp add: escapeUnit_def lt_units gt_units)

lemma escapeMarkup_empty: "escapeMarkup s = [] \<longleftrightarrow> s = []"
  by (cases s) (simp_all add: escapeMarkup_units escapeUnit_nonempty)

lemma escapeMarkup_no_markup: "60 \<notin> set (escapeMarkup s) \<and> 62 \<notin> set (escapeMarkup s)"
  by (simp add: escapeMarkup_units escapeUnit_no_markup)

lemma escapeMarkup_replicate_lt: "length (escapeMarkup (replicate n 60)) = 4 * n"
  by (induction n) (simp_all add: escapeMarkup_units escapeUnit_def lt_units)

lemma trimStart_escape:
  "trimStart (concat (map escapeUnit s)) = concat (map escapeUnit (trimStart s))"
  unfolding trimStart_def
  by (rule dropWhile_concat_map) (simp_all add: escapeUnit_whitespace escapeUnit_visible)

lemma trimEnd_escape:
  "trimEnd (concat (map escapeUnit s)) = concat (map escapeUnit (trimEnd s))"
proof -
  have rev_units: "rev (concat (map escapeUnit t)) = concat (map (rev \<circ> escapeUnit) (rev t))" for t
    by (simp add: rev_concat rev_map)
  have "dropWhile isWhiteSpace (concat (map (rev \<circ> escapeUnit) (rev s)))
          = concat (map (rev \<circ> escapeUnit) (dropWhile isWhiteSpace (rev s)))"
    by (rule dropWhile_concat_map) (simp_all add: escapeUnit_whitespace escapeUnit_visible hd_rev)
  then have "rev (dropWhile isWhiteSpace (rev (concat (map escapeUnit s))))
          = rev (concat (map (rev \<circ> escapeUnit) (dropWhile isWhiteSpace (rev s))))"
    by (simp add: rev_units)
  also have "\<dots> = concat (map escapeUnit (rev (dropWhile isWhiteSpace (rev s))))"
    by (simp add: rev_concat rev_map comp_def)
  finally show ?thesis by (simp add: trimEnd_def)
qed

text \<open>The service escapes and then trims; trimming first gives the same string.\<close>

lemma sanitize_trim_first: "sanitize content = escapeMarkup (trim content)"
  by (simp add: sanitize_def escapeMarkup_units trim_def trimStart_escape trimEnd_escape)

section \<open>Storable text\<close>

lemma whitespace_plain: "isWhiteSpace x \<Longrightarrow> \<not> isHighSurrogate x \<and> \<not> isLowSurrogate x"
  by (auto simp: isWhiteSpace_def isHighSurrogate_def isLowSurrogate_def)

lemma toWellFormed_plain_Cons:
  "\<not> isHighSurrogate x \<Longrightarrow> \<not> isLowSurrogate x \<Longrightarrow> toWellFormed (x # s) = x # toWellFormed s"
  by (cases s) simp_all

lemma toWellFormed_plain_snoc:
  "\<not> isHighSurrogate x \<Longrightarrow> \<not> isLowSurrogate x \<Longrightarrow> toWellFormed (s @ [x]) = toWellFormed s @ [x]"
  by (induction s rule: toWellFormed.induct) simp_all

lemma toWellFormed_plain_prefix:
  "\<forall>x \<in> set p. \<not> isHighSurrogate x \<and> \<not> isLowSurrogate x \<Longrightarrow>
     toWellFormed (p @ s) = p @ toWellFormed s"
  by (induction p) (simp_all add: toWellFormed_plain_Cons)

lemma storable_plain_Cons:
  "\<not> isHighSurrogate x \<Longrightarrow> \<not> isLowSurrogate x \<Longrightarrow> storable (x # s) \<longleftrightarrow> x \<noteq> 0 \<and> storable s"
  by (auto simp: storable_def toWellFormed_plain_Cons)

lemma storable_plain_snoc:
  "\<not> isHighSurrogate x \<Longrightarrow> \<not> isLowSurrogate x \<Longrightarrow> storable (s @ [x]) \<longleftrightarrow> x \<noteq> 0 \<and> storable s"
  by (auto simp: storable_def toWellFormed_plain_snoc)

lemma storable_trimStart: "storable s \<Longrightarrow> storable (trimStart s)"
  by (induction s) (auto simp: trimStart_def storable_plain_Cons dest: whitespace_plain)

lemma trimEnd_snoc: "trimEnd (s @ [x]) = (if isWhiteSpace x then trimEnd s else s @ [x])"
  by (simp add: trimEnd_def)

lemma storable_trimEnd: "storable s \<Longrightarrow> storable (trimEnd s)"
proof (induction s rule: rev_induct)
  case Nil
  then show ?case by (simp add: trimEnd_def)
next
  case (snoc x s)
  then show ?case
    by (auto simp: trimEnd_snoc storable_plain_snoc dest: whitespace_plain)
qed

lemma storable_trim: "storable s \<Longrightarrow> storable (trim s)"
  by (simp add: trim_def storable_trimStart storable_trimEnd)

lemma escapeUnit_plain:
  "\<not> isHighSurrogate x \<Longrightarrow> \<not> isLowSurrogate x \<Longrightarrow>
     \<forall>y \<in> set (escapeUnit x). \<not> isHighSurrogate y \<and> \<not> isLowSurrogate y"
  by (simp add: escapeUnit_def lt_units gt_units isHighSurrogate_def isLowSurrogate_def)

lemma escapeUnit_surrogate:
  "isHighSurrogate x \<or> isLowSurrogate x \<Longrightarrow> escapeUnit x = [x]"
  by (auto simp: escapeUnit_def isHighSurrogate_def isLowSurrogate_def)

lemma surrogate_not_replacement:
  "isHighSurrogate x \<or> isLowSurrogate x \<Longrightarrow> x \<noteq> 65533"
  by (auto simp: isHighSurrogate_def isLowSurrogate_def)

lemma toWellFormed_escape:
  "toWellFormed s = s \<Longrightarrow> toWellFormed (concat (map escapeUnit s)) = concat (map escapeUnit s)"
proof (induction s rule: toWellFormed.induct)
  case 1
  show ?case by simp
next
  case (2 x)
  then have "\<not> isHighSurrogate x \<and> \<not> isLowSurrogate x"
    using surrogate_not_replacement [of x] by (auto split: if_splits)
  then show ?case
    using toWellFormed_plain_prefix [of "escapeUnit x" "[]"] escapeUnit_plain [of x] by simp
next
  case (3 x y s)
  show ?case
  proof (cases "isHighSurrogate x \<and> isLowSurrogate y")
    case True
    with 3 show ?thesis by (simp add: escapeUnit_surrogate)
  next
    case False
    with "3.prems" have plain: "\<not> isHighSurrogate x \<and> \<not> isLowSurrogate x" and rest: "toWellFormed (y # s) = y # s"
      using surrogate_not_replacement [of x] by (auto split: if_splits)
    from "3.IH"(3) False plain rest
    have "toWellFormed (concat (map escapeUnit (y # s))) = concat (map escapeUnit (y # s))"
      by simp
    then show ?thesis
      using toWellFormed_plain_prefix [of "escapeUnit x" "concat (map escapeUnit (y # s))"]
        escapeUnit_plain [of x] plain
      by simp
  qed
qed

lemma escapeUnit_no_nul: "x \<noteq> 0 \<Longrightarrow> 0 \<notin> set (escapeUnit x)"
  by (simp add: escapeUnit_def lt_units gt_units)

lemma storable_escapeMarkup: "storable s \<Longrightarrow> storable (escapeMarkup s)"
proof -
  assume s: "storable s"
  have "0 \<notin> set (escapeUnit x)" if "x \<in> set s" for x
  proof -
    from s have "0 \<notin> set s" by (simp add: storable_def)
    with that have "x \<noteq> 0" by metis
    then show ?thesis by (rule escapeUnit_no_nul)
  qed
  then show ?thesis
    using s by (auto simp: storable_def escapeMarkup_units toWellFormed_escape)
qed

text \<open>A content without NUL character and lone surrogate is still so after \<open>trim\<close> and
  the two \<open>replace\<close> calls.\<close>

lemma storable_sanitized: "storable content \<Longrightarrow> storable (escapeMarkup (trim content))"
  by (simp add: storable_trim storable_escapeMarkup)

section \<open>Anonymous identifiers\<close>

text \<open>
  C8. \<open>generateAnonymousId(userId, classId)\<close> is the string \<open>Anon_\<close> followed by the first
  six characters of the hexadecimal SHA-256 digest of \<open>userId + ":" + classId\<close>. It is a
  function of its two arguments (and of the digest function) alone, so equal arguments
  give the identical string.
\<close>

theorem generateAnonymousId_spec:
  "generateAnonymousId P userId classId
     = js ''Anon_'' @ take 6 (sha256 P (userId @ js '':'' @ classId))"
  by (simp add: generateAnonymousId_def Let_def substring_prefix)

section \<open>Requesting a magic link\<close>

text \<open>
  C7. For every email that does not end with \<open>@virginia.edu\<close>, \<open>requestMagicLink\<close> throws
  its validation error and leaves the store as it was: no \<open>User\<close> row and no \<open>MagicLink\<close>
  row is created.
\<close>

theorem requestMagicLink_rejects_other_domains:
  "\<not> endsWith email (js ''@virginia.edu'') \<Longrightarrow>
     requestMagicLink P now userUuid linkUuid token delivered email d
       = (Inl (Error ''Only @virginia.edu emails are allowed''), d)"
  by (simp add: requestMagicLink_def)

theorem requestMagicLink_rejects_other_domains_witness:
  "\<not> endsWith (js ''bob@gmail.com'') (js ''@virginia.edu'') \<and>
   requestMagicLink example_platform 1000 (js ''u9'') (js ''l9'') (js ''c0ffee'') True
       (js ''bob@gmail.com'') empty_db
     = (Inl (Error ''Only @virginia.edu emails are allowed''), empty_db)"
proof -
  have h: "\<not> endsWith (js ''bob@gmail.com'') (js ''@virginia.edu'')"
    by (simp add: endsWith_def js_def)
  show ?thesis
    using h requestMagicLink_rejects_other_domains [OF h] by simp
qed

section \<open>Verifying a magic link\<close>

lemmas auth_examples =
  example_platform_def empty_db_def bob_def bob_link_def bob_session_def db_link_issued_def
  db_link_used_def db_logged_in_def db_session_used_def db_logged_out_def db_two_sessions_def
  js_def Let_def sha256_def

lemmas auth_store =
  magicLink_findUnique_tokenHash_def magicLink_include_user_def magicLink_update_used_def
  user_update_emailVerified_def session_create_def session_findUnique_tokenHash_def
  session_update_lastUsedAt_def session_delete_tokenHash_def

lemma verifyMagicLink_absent:
  "magicLink_findUnique_tokenHash d (sha256 P token) = None \<Longrightarrow>
     verifyMagicLink P now sessionUuid token d = (Inl (Error ''Invalid or expired magic link''), d)"
  by (simp add: verifyMagicLink_def)

lemma verifyMagicLink_expired:
  "magicLink_findUnique_tokenHash d (sha256 P token) = Some l \<Longrightarrow> magicLink_expiresAt l < now \<Longrightarrow>
     verifyMagicLink P now sessionUuid token d = (Inl (Error ''Magic link has expired''), d)"
  by (simp add: verifyMagicLink_def Let_def)

lemma verifyMagicLink_used:
  "magicLink_findUnique_tokenHash d (sha256 P token) = Some l \<Longrightarrow> magicLink_used l \<Longrightarrow>
     verifyMagicLink P now sessionUuid token d
       = (Inl (Error (if magicLink_expiresAt l < now then ''Magic link has expired''
                      else ''Magic link has already been used'')), d)"
  by (simp add: verifyMagicLink_def Let_def)

text \<open>A successful verification leaves the link, as the lookup by digest finds it,
  marked as used.\<close>

lemma verifyMagicLink_success_marks_used:
  assumes "verifyMagicLink P now sessionUuid token d = (Inr result, d')"
  shows "\<exists>l. magicLink_findUnique_tokenHash d' (sha256 P token) = Some l \<and> magicLink_used l"
proof -
  from assms obtain l where l: "magicLink_findUnique_tokenHash d (sha256 P token) = Some l"
    by (auto simp: verifyMagicLink_def split: option.splits)
  from assms l obtain d1 d2 where
    d1: "magicLink_update_used d (magicLink_id l) = Inr d1" and
    d2: "user_update_emailVerified d1 now (magicLink_userId l) = Inr d2" and
    d3: "magicLinks d' = magicLinks d2"
    by (auto simp: verifyMagicLink_def Let_def session_create_def
          split: option.splits if_splits sum.splits)
  from d1 have m1: "magicLinks d1 =
      map (\<lambda>x. if magicLink_id x = magicLink_id l then x\<lparr>magicLink_used := True\<rparr> else x)
        (magicLinks d)"
    by (auto simp: magicLink_update_used_def split: if_splits)
  from d2 have m2: "magicLinks d2 = magicLinks d1"
    by (auto simp: user_update_emailVerified_def split: if_splits)
  have "magicLink_findUnique_tokenHash d' (sha256 P token)
      = map_option (\<lambda>x. if magicLink_id x = magicLink_id l then x\<lparr>magicLink_used := True\<rparr> else x)
          (magicLink_findUnique_tokenHash d (sha256 P token))"
    unfolding magicLink_findUnique_tokenHash_def d3 m2 m1
    by (rule find_map_preserving) simp
  with l show ?thesis by simp
qed

text \<open>
  C1. \<open>verifyMagicLink(token)\<close> throws, and leaves the store as it was, if no \<open>MagicLink\<close>
  row has the digest of the token, if the row's \<open>expiresAt\<close> is before now, or if its
  \<open>used\<close> flag is set. The spec's \<open>InvalidTokenError\<close> is the \<open>Error\<close> that the service
  throws; the three causes differ in its message only. Consequently, after one successful
  verification every further call with the same token, at any time, throws such an
  \<open>Error\<close>.
\<close>

theorem verifyMagicLink_single_use:
  "(magicLink_findUnique_tokenHash d (sha256 P token) = None \<longrightarrow>
      verifyMagicLink P now sessionUuid token d
        = (Inl (Error ''Invalid or expired magic link''), d))
   \<and> (magicLink_findUnique_tokenHash d (sha256 P token) = Some l \<and> magicLink_expiresAt l < now \<longrightarrow>
      verifyMagicLink P now sessionUuid token d = (Inl (Error ''Magic link has expired''), d))
   \<and> (magicLink_findUnique_tokenHash d (sha256 P token) = Some l \<and> magicLink_used l \<longrightarrow>
      verifyMagicLink P now sessionUuid token d
        = (Inl (Error (if magicLink_expiresAt l < now then ''Magic link has expired''
                       else ''Magic link has already been used'')), d))
   \<and> (verifyMagicLink P now sessionUuid token d = (Inr result, d') \<longrightarrow>
      (\<exists>message. verifyMagicLink P now' sessionUuid' token d' = (Inl (Error message), d')))"
proof (intro conjI impI)
  assume "verifyMagicLink P now sessionUuid token d = (Inr result, d')"
  then obtain l' where
    "magicLink_findUnique_tokenHash d' (sha256 P token) = Some l'" "magicLink_used l'"
    using verifyMagicLink_success_marks_used by blast
  then show "\<exists>message. verifyMagicLink P now' sessionUuid' token d' = (Inl (Error message), d')"
    using verifyMagicLink_used by blast
qed (auto simp: verifyMagicLink_absent verifyMagicLink_expired verifyMagicLink_used)

theorem verifyMagicLink_single_use_witness:
  "verifyMagicLink example_platform 1000 (js ''s1'') (js ''beef'') db_link_issued
      = (Inl (Error ''Invalid or expired magic link''), db_link_issued)
   \<and> verifyMagicLink example_platform 900001 (js ''s1'') (js ''c0ffee'') db_link_issued
      = (Inl (Error ''Magic link has expired''), db_link_issued)
   \<and> verifyMagicLink example_platform 1000 (js ''s1'') (js ''c0ffee'') db_link_used
      = (Inl (Error ''Magic link has already been used''), db_link_used)
   \<and> verifyMagicLink example_platform 1000 (js ''s1'') (js ''c0ffee'') db_link_issued
      = (Inr (bob, js ''jwt-u1-a''), db_logged_in)
   \<and> (\<exists>message. verifyMagicLink example_platform 6000 (js ''s2'') (js ''c0ffee'') db_logged_in
      = (Inl (Error message), db_logged_in))"
proof -
  have a: "magicLink_findUnique_tokenHash db_link_issued (sha256 example_platform (js ''beef''))
             = None"
    by (simp add: auth_examples auth_store)
  have b: "magicLink_findUnique_tokenHash db_link_issued (sha256 example_platform (js ''c0ffee''))
             = Some bob_link \<and> magicLink_expiresAt bob_link < 900001"
    by (simp add: auth_examples auth_store)
  have c: "magicLink_findUnique_tokenHash db_link_used (sha256 example_platform (js ''c0ffee''))
             = Some (bob_link\<lparr>magicLink_used := True\<rparr>)
           \<and> magicLink_used (bob_link\<lparr>magicLink_used := True\<rparr>)"
    by (simp add: auth_examples auth_store)
  have d: "verifyMagicLink example_platform 1000 (js ''s1'') (js ''c0ffee'') db_link_issued
             = (Inr (bob, js ''jwt-u1-a''), db_logged_in)"
    by (simp add: verifyMagicLink_def auth_examples auth_store)
  show ?thesis
    using a b c d
      verifyMagicLink_single_use [where d = db_link_issued and P = example_platform
          and token = "js ''beef''" and now = 1000 and sessionUuid = "js ''s1''"]
      verifyMagicLink_single_use [where d = db_link_issued and P = example_platform
          and token = "js ''c0ffee''" and l = bob_link and now = 900001 and sessionUuid = "js ''s1''"]
      verifyMagicLink_single_use [where d = db_link_used and P = example_platform
          and token = "js ''c0ffee''" and l = "bob_link\<lparr>magicLink_used := True\<rparr>"
          and now = 1000 and sessionUuid = "js ''s1''"]
      verifyMagicLink_single_use [where d = db_link_issued and P = example_platform
          and token = "js ''c0ffee''" and now = 1000 and sessionUuid = "js ''s1''"
          and result = "(bob, js ''jwt-u1-a'')" and d' = db_logged_in
          and now' = 6000 and sessionUuid' = "js ''s2''"]
    by (simp add: bob_link_def)
qed

text \<open>Run alone, the four steps of a request are \<open>verifyMagicLink\<close>.\<close>

lemma verify_alone_refines:
  "verify_alone P now sessionUuid token d =
     (case verifyMagicLink P now sessionUuid token d of
        (Inl e, d') \<Rightarrow> (Threw e, d')
      | (Inr (user, jwtToken), d') \<Rightarrow> (Returned user jwtToken, d'))"
  by (simp add: verify_alone_def verifyMagicLink_def Let_def
        split: option.splits sum.splits)

text \<open>
  C9. Two verifications of the same token must not both succeed when they overlap. The
  code reads the link and, in a later query, marks it as used without a condition, so
  both requests can read \<open>used = false\<close> before either writes: with the two requests
  served in turn, both return a session credential for Bob's one link (the two
  credentials are signed in different seconds and so differ).
\<close>

theorem verifyMagicLink_double_consume:
  "interleave example_platform (4999, js ''s1'') (5000, js ''s2'')
       [True, False, True, False, True, False, True, False]
       (AtFindUnique (js ''c0ffee''), AtFindUnique (js ''c0ffee''), db_link_issued)
     = (Returned bob (js ''jwt-u1-a''), Returned bob (js ''jwt-u1-b''), db_two_sessions)"
  by (simp add: auth_examples auth_store)

section \<open>Validating a session credential\<close>

lemma validateToken_failure:
  "validateToken P now token d = (Inl e, d') \<Longrightarrow> e = Error ''Invalid token'' \<and> d' = d"
  by (auto simp: validateToken_def validateToken_try_def Let_def
        split: option.splits if_splits sum.splits prod.splits)

lemma validateToken_no_session:
  "session_findUnique_tokenHash d (sha256 P token) = None \<Longrightarrow>
     validateToken P now token d = (Inl (Error ''Invalid token''), d)"
  by (simp add: validateToken_def validateToken_try_def Let_def split: option.splits)

lemma validateToken_session_expired:
  "session_findUnique_tokenHash d (sha256 P token) = Some s \<Longrightarrow> session_expiresAt s < now \<Longrightarrow>
     validateToken P now token d = (Inl (Error ''Invalid token''), d)"
  by (simp add: validateToken_def validateToken_try_def Let_def split: option.splits)

lemma validateToken_bad_signature:
  "jwt_verify P now token = None \<Longrightarrow>
     validateToken P now token d = (Inl (Error ''Invalid token''), d)"
  by (simp add: validateToken_def validateToken_try_def)

lemma validateToken_try_session_expired:
  "jwt_verify P now token = Some decoded \<Longrightarrow>
   session_findUnique_tokenHash d (sha256 P token) = None
     \<or> (\<exists>s. session_findUnique_tokenHash d (sha256 P token) = Some s \<and> session_expiresAt s < now) \<Longrightarrow>
   validateToken_try P now token d = (Inl (Error ''Session expired''), d)"
  by (auto simp: validateToken_try_def Let_def)

lemma logout_removes_session:
  "logout P token d = (r, d') \<Longrightarrow> session_findUnique_tokenHash d' (sha256 P token) = None"
proof (cases "sha256 P token \<in> session_tokenHash ` set (sessions d)")
  case True
  assume "logout P token d = (r, d')"
  with True have "sessions d' = filter (\<lambda>s. session_tokenHash s \<noteq> sha256 P token) (sessions d)"
    by (auto simp: logout_def Let_def session_delete_tokenHash_def)
  then show ?thesis
    using find_filter_None [of "\<lambda>s. session_tokenHash s = sha256 P token" "sessions d"]
    by (simp add: session_findUnique_tokenHash_def)
next
  case False
  assume "logout P token d = (r, d')"
  with False have "d' = d"
    by (auto simp: logout_def Let_def session_delete_tokenHash_def)
  with False show ?thesis
    by (force simp: session_findUnique_tokenHash_def find_None_iff)
qed

text \<open>
  A credential with a valid signature whose session row is gone is not told apart from a
  forged one: after Bob's logout, his credential and a forged string are answered with
  the same \<open>Error\<close>.
\<close>

theorem validateToken_error_kind_counterexample:
  "logout example_platform (js ''jwt-u1-a'') db_logged_in = (Inr (), db_logged_out)
   \<and> jwt_verify example_platform 2000 (js ''jwt-u1-a'')
       = Some \<lparr>payload_userId = js ''u1'', payload_email = js ''bob@virginia.edu''\<rparr>
   \<and> jwt_verify example_platform 2000 (js ''forged'') = None
   \<and> validateToken example_platform 2000 (js ''jwt-u1-a'') db_logged_out
       = (Inl (Error ''Invalid token''), db_logged_out)
   \<and> validateToken example_platform 2000 (js ''forged'') db_logged_out
       = (Inl (Error ''Invalid token''), db_logged_out)"
  by (simp add: validateToken_def validateToken_try_def logout_def auth_examples auth_store)

text \<open>
  C3, as amended. For every credential whose signature is valid but for which no live
  \<open>Session\<close> row has its digest (none at all, or one whose \<open>expiresAt\<close> is before now), and
  in particular after \<open>logout\<close> of that credential, \<open>validateToken\<close> throws and leaves the
  store as it was. What it throws is \<open>Error('Invalid token')\<close>, the same error as for an
  invalid signature: the \<open>Error('Session expired')\<close> raised in the body is caught by the
  function's own \<open>catch\<close> and replaced.
\<close>

theorem validateToken_without_live_session:
  "(jwt_verify P now token = Some decoded
      \<and> session_findUnique_tokenHash d (sha256 P token) = None \<longrightarrow>
      validateToken_try P now token d = (Inl (Error ''Session expired''), d)
      \<and> validateToken P now token d = (Inl (Error ''Invalid token''), d))
   \<and> (jwt_verify P now token = Some decoded
      \<and> session_findUnique_tokenHash d (sha256 P token) = Some s \<and> session_expiresAt s < now \<longrightarrow>
      validateToken_try P now token d = (Inl (Error ''Session expired''), d)
      \<and> validateToken P now token d = (Inl (Error ''Invalid token''), d))
   \<and> (jwt_verify P now token = Some decoded \<and> logout P token d = (r, d') \<longrightarrow>
      session_findUnique_tokenHash d' (sha256 P token) = None
      \<and> validateToken P now token d' = (Inl (Error ''Invalid token''), d'))
   \<and> (jwt_verify P now token = None \<longrightarrow>
      validateToken P now token d = (Inl (Error ''Invalid token''), d))"
proof (intro conjI impI)
  assume "jwt_verify P now token = Some decoded \<and> logout P token d = (r, d')"
  then have gone: "session_findUnique_tokenHash d' (sha256 P token) = None"
    using logout_removes_session by blast
  then show "session_findUnique_tokenHash d' (sha256 P token) = None" .
  from gone show "validateToken P now token d' = (Inl (Error ''Invalid token''), d')"
    by (rule validateToken_no_session)
qed (auto simp: validateToken_no_session validateToken_session_expired validateToken_bad_signature
       validateToken_try_session_expired)

theorem validateToken_without_live_session_witness:
  "validateToken_try example_platform 2000 (js ''jwt-u1-a'') db_link_used
      = (Inl (Error ''Session expired''), db_link_used)
   \<and> validateToken example_platform 2000 (js ''jwt-u1-a'') db_link_used
      = (Inl (Error ''Invalid token''), db_link_used)
   \<and> validateToken example_platform 604801001 (js ''jwt-u1-a'') db_logged_in
      = (Inl (Error ''Invalid token''), db_logged_in)
   \<and> logout example_platform (js ''jwt-u1-a'') db_logged_in = (Inr (), db_logged_out)
   \<and> validateToken example_platform 2000 (js ''jwt-u1-a'') db_logged_out
      = (Inl (Error ''Invalid token''), db_logged_out)
   \<and> validateToken example_platform 2000 (js ''forged'') db_logged_in
      = (Inl (Error ''Invalid token''), db_logged_in)"
proof -
  let ?payload = "\<lparr>payload_userId = js ''u1'', payload_email = js ''bob@virginia.edu''\<rparr>"
  have valid: "jwt_verify example_platform t (js ''jwt-u1-a'') = Some ?payload" for t
    by (simp add: example_platform_def js_def)
  have a: "session_findUnique_tokenHash db_link_used (sha256 example_platform (js ''jwt-u1-a''))
             = None"
    by (simp add: auth_examples auth_store)
  have b: "session_findUnique_tokenHash db_logged_in (sha256 example_platform (js ''jwt-u1-a''))
             = Some bob_session \<and> session_expiresAt bob_session < 604801001"
    by (simp add: auth_examples auth_store)
  have c: "logout example_platform (js ''jwt-u1-a'') db_logged_in = (Inr (), db_logged_out)"
    by (simp add: logout_def auth_examples auth_store)
  have e: "jwt_verify example_platform 2000 (js ''forged'') = None"
    by (simp add: example_platform_def js_def)
  show ?thesis
    using valid a b c e
      validateToken_without_live_session [where P = example_platform and now = 2000
        and token = "js ''jwt-u1-a''" and d = db_link_used and decoded = ?payload]
      validateToken_without_live_session [where P = example_platform and now = 604801001
        and token = "js ''jwt-u1-a''" and d = db_logged_in and decoded = ?payload
        and s = bob_session]
      validateToken_without_live_session [where P = example_platform and now = 2000
        and token = "js ''jwt-u1-a''" and d = db_logged_in and decoded = ?payload
        and r = "Inr ()" and d' = db_logged_out]
      validateToken_without_live_session [where P = example_platform and now = 2000
        and token = "js ''forged''" and d = db_logged_in]
    by simp
qed

lemma validateToken_success_sessions:
  assumes "validateToken P now token d = (Inr decoded, d')"
  shows "\<exists>sid. d' = d\<lparr>sessions := map (\<lambda>s. if session_id s = sid
                                            then s\<lparr>session_lastUsedAt := now\<rparr> else s)
                                     (sessions d)\<rparr>"
  using assms
  by (auto simp: validateToken_def validateToken_try_def Let_def session_update_lastUsedAt_def
        split: option.splits if_splits sum.splits prod.splits)

lemma validateToken_frame:
  "validateToken P now token d = (r, d') \<Longrightarrow>
     d' = d\<lparr>sessions := sessions d'\<rparr> \<and>
     map (\<lambda>s. s\<lparr>session_lastUsedAt := 0\<rparr>) (sessions d')
       = map (\<lambda>s. s\<lparr>session_lastUsedAt := 0\<rparr>) (sessions d)"
proof (cases r)
  case (Inl e)
  assume "validateToken P now token d = (r, d')"
  with Inl have "d' = d" using validateToken_failure by blast
  then show ?thesis by simp
next
  case (Inr decoded)
  assume "validateToken P now token d = (r, d')"
  with Inr obtain sid where
    "d' = d\<lparr>sessions := map (\<lambda>s. if session_id s = sid then s\<lparr>session_lastUsedAt := now\<rparr> else s)
                           (sessions d)\<rparr>"
    using validateToken_success_sessions by blast
  then show ?thesis by (simp add: comp_def if_distrib cong: if_cong)
qed

lemma validateTokens_frame:
  "map (\<lambda>s. s\<lparr>session_lastUsedAt := 0\<rparr>) (sessions (validateTokens P calls d))
     = map (\<lambda>s. s\<lparr>session_lastUsedAt := 0\<rparr>) (sessions d)"
proof (induction calls arbitrary: d)
  case Nil
  then show ?case by simp
next
  case (Cons c calls)
  obtain now token where c: "c = (now, token)" by (cases c)
  show ?case
    using Cons.IH [of "snd (validateToken P now token d)"]
      validateToken_frame [of P now token d "fst (validateToken P now token d)"
        "snd (validateToken P now token d)"]
    by (simp add: c)
qed

lemma verifyMagicLink_session:
  assumes "verifyMagicLink P now sessionUuid token d = (Inr (user, jwtToken), d')"
  shows "\<exists>s. sessions d' = sessions d @ [s] \<and> session_tokenHash s = sha256 P jwtToken
           \<and> session_createdAt s = now
           \<and> session_expiresAt s = session_createdAt s + 7 * 24 * 60 * 60 * 1000"
  using assms
  by (auto simp: verifyMagicLink_def Let_def session_create_def magicLink_update_used_def
        user_update_emailVerified_def
        split: option.splits if_splits sum.splits)

text \<open>
  C10. A successful \<open>validateToken\<close> changes nothing but \<open>lastUsedAt\<close> of \<open>Session\<close> rows:
  every other table is as before, and with \<open>lastUsedAt\<close> blanked out the \<open>Session\<close> table
  is as before. The session that \<open>verifyMagicLink\<close> creates expires 7 days after its
  creation, and no sequence of \<open>validateToken\<close> calls, however long, changes the
  identifier, digest, creation time or expiry of any session: the expiry does not slide.
\<close>

theorem validateToken_no_sliding_expiry:
  "(validateToken P now token d = (Inr decoded, d') \<longrightarrow>
      d' = d\<lparr>sessions := sessions d'\<rparr>
      \<and> map (\<lambda>s. s\<lparr>session_lastUsedAt := 0\<rparr>) (sessions d')
          = map (\<lambda>s. s\<lparr>session_lastUsedAt := 0\<rparr>) (sessions d))
   \<and> (verifyMagicLink P issued sessionUuid magicToken d = (Inr (user, jwtToken), d') \<longrightarrow>
      (\<exists>s. sessions d' = sessions d @ [s] \<and> session_tokenHash s = sha256 P jwtToken
           \<and> session_createdAt s = issued
           \<and> session_expiresAt s = session_createdAt s + 7 * 24 * 60 * 60 * 1000))
   \<and> map (\<lambda>s. (session_id s, session_tokenHash s, session_createdAt s, session_expiresAt s))
        (sessions (validateTokens P calls d))
      = map (\<lambda>s. (session_id s, session_tokenHash s, session_createdAt s, session_expiresAt s))
          (sessions d)"
proof (intro conjI impI)
  assume "validateToken P now token d = (Inr decoded, d')"
  then have frame: "d' = d\<lparr>sessions := sessions d'\<rparr> \<and>
      map (\<lambda>s. s\<lparr>session_lastUsedAt := 0\<rparr>) (sessions d')
        = map (\<lambda>s. s\<lparr>session_lastUsedAt := 0\<rparr>) (sessions d)"
    by (rule validateToken_frame)
  from frame show "d' = d\<lparr>sessions := sessions d'\<rparr>" by (rule conjunct1)
  from frame show "map (\<lambda>s. s\<lparr>session_lastUsedAt := 0\<rparr>) (sessions d')
          = map (\<lambda>s. s\<lparr>session_lastUsedAt := 0\<rparr>) (sessions d)" by (rule conjunct2)
next
  assume "verifyMagicLink P issued sessionUuid magicToken d = (Inr (user, jwtToken), d')"
  then show "\<exists>s. sessions d' = sessions d @ [s] \<and> session_tokenHash s = sha256 P jwtToken
           \<and> session_createdAt s = issued
           \<and> session_expiresAt s = session_createdAt s + 7 * 24 * 60 * 60 * 1000"
    by (rule verifyMagicLink_session)
next
  let ?key = "\<lambda>s. (session_id s, session_tokenHash s, session_createdAt s, session_expiresAt s)"
  let ?zero = "\<lambda>s. s\<lparr>session_lastUsedAt := 0\<rparr>"
  have key: "map ?key xs = map ?key (map ?zero xs)" for xs :: "Session list"
    by (simp add: comp_def)
  have "map ?key (sessions (validateTokens P calls d))
          = map ?key (map ?zero (sessions (validateTokens P calls d)))"
    by (rule key)
  also have "\<dots> = map ?key (map ?zero (sessions d))"
    by (simp only: validateTokens_frame)
  also have "\<dots> = map ?key (sessions d)"
    by (rule key [symmetric])
  finally show "map ?key (sessions (validateTokens P calls d)) = map ?key (sessions d)" .
qed

theorem validateToken_no_sliding_expiry_witness:
  "validateToken example_platform 86400000 (js ''jwt-u1-a'') db_logged_in
      = (Inr \<lparr>payload_userId = js ''u1'', payload_email = js ''bob@virginia.edu''\<rparr>, db_session_used)
   \<and> map session_lastUsedAt (sessions db_session_used) = [86400000]
   \<and> map session_expiresAt (sessions db_session_used) = map session_expiresAt (sessions db_logged_in)
   \<and> verifyMagicLink example_platform 1000 (js ''s1'') (js ''c0ffee'') db_link_issued
      = (Inr (bob, js ''jwt-u1-a''), db_logged_in)
   \<and> map session_expiresAt (sessions db_logged_in) = [1000 + 7 * 24 * 60 * 60 * 1000]
   \<and> map session_expiresAt
        (sessions (validateTokens example_platform
           [(86400000, js ''jwt-u1-a''), (172800000, js ''jwt-u1-a'')] db_logged_in))
      = [1000 + 7 * 24 * 60 * 60 * 1000]"
proof -
  have a: "validateToken example_platform 86400000 (js ''jwt-u1-a'') db_logged_in
      = (Inr \<lparr>payload_userId = js ''u1'', payload_email = js ''bob@virginia.edu''\<rparr>, db_session_used)"
    by (simp add: validateToken_def validateToken_try_def auth_examples auth_store)
  have b: "verifyMagicLink example_platform 1000 (js ''s1'') (js ''c0ffee'') db_link_issued
      = (Inr (bob, js ''jwt-u1-a''), db_logged_in)"
    by (simp add: verifyMagicLink_def auth_examples auth_store)
  have c: "map (\<lambda>s. (session_id s, session_tokenHash s, session_createdAt s, session_expiresAt s))
             (sessions db_logged_in)
           = [(js ''s1'', js ''digest-of-jwt-u1-a'', 1000, 604801000)]"
    by (simp add: db_logged_in_def bob_session_def)
  have "map (\<lambda>s. (session_id s, session_tokenHash s, session_createdAt s, session_expiresAt s))
          (sessions (validateTokens example_platform
             [(86400000, js ''jwt-u1-a''), (172800000, js ''jwt-u1-a'')] db_logged_in))
        = [(js ''s1'', js ''digest-of-jwt-u1-a'', 1000, 604801000)]"
    using c validateToken_no_sliding_expiry [where P = example_platform and d = db_logged_in
        and calls = "[(86400000, js ''jwt-u1-a''), (172800000, js ''jwt-u1-a'')]"]
    by simp
  then have e: "map session_expiresAt
        (sessions (validateTokens example_platform
           [(86400000, js ''jwt-u1-a''), (172800000, js ''jwt-u1-a'')] db_logged_in))
      = [604801000]"
    by (auto simp: map_eq_Cons_conv)
  show ?thesis
    using a b e
      validateToken_no_sliding_expiry [where P = example_platform and now = 86400000
        and token = "js ''jwt-u1-a''" and d = db_logged_in and d' = db_session_used
        and decoded = "\<lparr>payload_userId = js ''u1'', payload_email = js ''bob@virginia.edu''\<rparr>"
        and calls = "[]"]
      validateToken_no_sliding_expiry [where P = example_platform and issued = 1000
        and sessionUuid = "js ''s1''" and magicToken = "js ''c0ffee''" and d = db_link_issued
        and d' = db_logged_in and user = bob and jwtToken = "js ''jwt-u1-a''" and calls = "[]"]
    by (simp add: db_session_used_def db_logged_in_def bob_session_def)
qed

section \<open>Friend requests\<close>

lemma friendship_create_duplicate:
  "(friendship_userId1 f, friendship_userId2 f) \<in> friendship_pair ` set (friendships d) \<Longrightarrow>
     friendship_create d f = Inl (PrismaClientKnownRequestError ''P2002'')"
  by (simp add: friendship_create_def friendship_pair_def)

lemmas friend_examples =
  db_rejected_def db_pending_def empty_db_def bob_def alice_def request_of_def js_def
  sendFriendRequest_def friendship_findFirst_between_def friendship_between_def
  friendship_create_def friendship_pair_def user_findUnique_id_def Let_def

text \<open>
  Bob's request to Alice was rejected. Alice now sends a request to Bob: the lookup finds
  the rejected row, neither guard fires, and a second row for the same two users is
  created.
\<close>

theorem sendFriendRequest_second_row_counterexample:
  "request_of ''f1'' ''u1'' ''u2'' REJECTED 100 \<in> set (friendships db_rejected)
   \<and> friendship_between (js ''u2'') (js ''u1'') (request_of ''f1'' ''u1'' ''u2'' REJECTED 100)
   \<and> sendFriendRequest 2000 (js ''f2'') (js ''u2'') (js ''u1'') db_rejected
       = (Inr (request_of ''f2'' ''u2'' ''u1'' PENDING 2000,
               Some (js ''u1'', js ''bob@virginia.edu'', None)),
          db_rejected\<lparr>friendships := [request_of ''f1'' ''u1'' ''u2'' REJECTED 100,
                                       request_of ''f2'' ''u2'' ''u1'' PENDING 2000]\<rparr>)"
  by (simp add: friend_examples)

text \<open>
  C4, as amended. In a store that satisfies the schema's \<open>@@unique([userId1, userId2])\<close>,
  whenever a \<open>Friendship\<close> row with status \<open>PENDING\<close> or \<open>ACCEPTED\<close> exists between two
  users, in either direction, a further \<open>sendFriendRequest\<close> between them, in either
  direction, throws and leaves the store as it was.
\<close>

theorem sendFriendRequest_rejects_active_pair:
  "distinct (map friendship_pair (friendships d))
   \<and> f \<in> set (friendships d) \<and> friendship_between fromUserId toUserId f
   \<and> (friendship_status f = PENDING \<or> friendship_status f = ACCEPTED)
   \<longrightarrow> (\<exists>e. sendFriendRequest now uuid fromUserId toUserId d = (Inl e, d))"
proof (intro impI, elim conjE)
  assume unique: "distinct (map friendship_pair (friendships d))"
    and member: "f \<in> set (friendships d)"
    and between: "friendship_between fromUserId toUserId f"
    and active: "friendship_status f = PENDING \<or> friendship_status f = ACCEPTED"
  show "\<exists>e. sendFriendRequest now uuid fromUserId toUserId d = (Inl e, d)"
  proof (cases "fromUserId = toUserId")
    case True
    then show ?thesis by (simp add: sendFriendRequest_def)
  next
    case distinct_users: False
    from find_exists [of f "friendships d" "friendship_between fromUserId toUserId"] member between
    obtain g where
      found: "friendship_findFirst_between d fromUserId toUserId = Some g"
      by (auto simp: friendship_findFirst_between_def)
    then have g: "g \<in> set (friendships d)" "friendship_between fromUserId toUserId g"
      using find_Some_member [of "friendship_between fromUserId toUserId" "friendships d" g]
      by (simp_all add: friendship_findFirst_between_def)
    show ?thesis
    proof (cases "friendship_status g = ACCEPTED \<or> friendship_status g = PENDING")
      case True
      then show ?thesis
        using distinct_users found by (auto simp: sendFriendRequest_def Let_def)
    next
      case False
      with active have "g \<noteq> f" by auto
      moreover have "inj_on friendship_pair (set (friendships d))"
        using unique by (simp add: distinct_map)
      ultimately have "friendship_pair g \<noteq> friendship_pair f"
        using g(1) member by (auto dest: inj_onD)
      with g(2) between
      have "(fromUserId, toUserId) = friendship_pair g \<or> (fromUserId, toUserId) = friendship_pair f"
        by (auto simp: friendship_between_def friendship_pair_def)
      with g(1) member have dup: "(fromUserId, toUserId) \<in> friendship_pair ` set (friendships d)"
        by auto
      show ?thesis
        using distinct_users found False friendship_create_duplicate dup
        by (auto simp: sendFriendRequest_def Let_def)
    qed
  qed
qed

theorem sendFriendRequest_rejects_active_pair_witness:
  "sendFriendRequest 2000 (js ''f2'') (js ''u2'') (js ''u1'') db_pending
     = (Inl (Error ''Friend request already sent''), db_pending)"
proof -
  have h: "distinct (map friendship_pair (friendships db_pending))
     \<and> request_of ''f1'' ''u1'' ''u2'' PENDING 100 \<in> set (friendships db_pending)
     \<and> friendship_between (js ''u2'') (js ''u1'') (request_of ''f1'' ''u1'' ''u2'' PENDING 100)
     \<and> (friendship_status (request_of ''f1'' ''u1'' ''u2'' PENDING 100) = PENDING
         \<or> friendship_status (request_of ''f1'' ''u1'' ''u2'' PENDING 100) = ACCEPTED)"
    by (simp add: friend_examples)
  show ?thesis
    using h sendFriendRequest_rejects_active_pair [where d = db_pending
        and f = "request_of ''f1'' ''u1'' ''u2'' PENDING 100"
        and fromUserId = "js ''u2''" and toUserId = "js ''u1''" and now = 2000 and uuid = "js ''f2''"]
    by (simp add: friend_examples)
qed

section \<open>Posting a message\<close>

lemmas class_examples =
  db_class_def db_one_post_def db_thread_def db_posted_def empty_db_def bob_def cs3120_def
  bob_in_cs3120_def bob_post_def five_flags_def js_def Let_def

lemma createMessage_invalid:
  assumes "userClass_findUnique d userId classId = Some enrollment"
    and "trim content = [] \<or> length (escapeMarkup (trim content)) > 1000"
  shows "createMessage P now uuid userId classId content parentMessageId d
           = (Inl (Error ''Message content must be between 1 and 1000 characters''), d)"
  using assms by (auto simp: createMessage_def Let_def sanitize_trim_first escapeMarkup_empty)

lemma createMessage_valid:
  assumes "userClass_findUnique d userId classId = Some enrollment"
    and "trim content \<noteq> []" and "length (escapeMarkup (trim content)) \<le> 1000"
  shows "createMessage P now uuid userId classId content parentMessageId d
           = (case classMessage_create d
                     \<lparr>classMessage_id = uuid, classMessage_classId = classId,
                      classMessage_userId = userId,
                      classMessage_anonymousIdentifier = generateAnonymousId P userId classId,
                      classMessage_content = escapeMarkup (trim content),
                      classMessage_parentMessageId = parentMessageId,
                      classMessage_createdAt = now, classMessage_updatedAt = now,
                      classMessage_flaggedCount = 0, classMessage_hidden = False\<rparr> of
                Inl e \<Rightarrow> (Inl e, d)
              | Inr (stored, d1) \<Rightarrow> (Inr stored, d1))"
  using assms by (simp add: createMessage_def Let_def sanitize_trim_first escapeMarkup_empty)

lemma classMessage_create_cases:
  "classMessage_create d m = Inl PrismaClientUnknownRequestError
   \<or> classMessage_create d m = Inl (PrismaClientKnownRequestError ''P2002'')
   \<or> classMessage_create d m = Inl (PrismaClientKnownRequestError ''P2003'')
   \<or> (\<exists>stored d1. classMessage_create d m = Inr (stored, d1))"
  by (simp add: classMessage_create_def Let_def)

lemma classMessage_encoded_storable:
  "list_all storable (classMessage_text m) \<Longrightarrow> classMessage_encoded m = m"
  by (cases "classMessage_parentMessageId m")
     (simp_all add: classMessage_text_def classMessage_encoded_def storable_def)

lemma classMessage_create_accepts:
  assumes "accepts_message d m"
  shows "classMessage_create d m = Inr (m, d\<lparr>classMessages := classMessages d @ [m]\<rparr>)"
proof -
  from assms have columns: "list_all storable (classMessage_text m)"
    by (simp add: accepts_message_def)
  then have "\<not> list_ex (\<lambda>s. 0 \<in> set s) (classMessage_text m)"
    by (auto simp: list_all_iff list_ex_iff storable_def)
  moreover have "classMessage_encoded m = m"
    using columns by (rule classMessage_encoded_storable)
  ultimately show ?thesis
    using assms
    by (auto simp: classMessage_create_def accepts_message_def Let_def split: option.splits)
qed

text \<open>What the store does with text that is not storable: a message with a NUL
  character is refused and nothing is written, and a lone surrogate is stored, and
  returned, as U+FFFD.\<close>

lemma createMessage_nul_refused:
  "createMessage example_platform 1000 (js ''m1'') (js ''u1'') (js ''c1'') [97, 0, 98] None db_class
     = (Inl PrismaClientUnknownRequestError, db_class)"
proof -
  have "sanitize [97, 0, 98] = [97, 0, 98]"
    by (simp add: sanitize_trim_first trim_def trimStart_def trimEnd_def isWhiteSpace_def
          escapeMarkup_units escapeUnit_def)
  then show ?thesis
    by (simp add: createMessage_def classMessage_create_def classMessage_text_def
          userClass_findUnique_def class_examples)
qed

lemma createMessage_lone_surrogate_replaced:
  "map_sum id classMessage_content
     (fst (createMessage example_platform 1000 (js ''m1'') (js ''u1'') (js ''c1'')
             [120, 55357, 121] None db_class))
     = Inr [120, 65533, 121]"
proof -
  have "sanitize [120, 55357, 121] = [120, 55357, 121]"
    by (simp add: sanitize_trim_first trim_def trimStart_def trimEnd_def isWhiteSpace_def
          escapeMarkup_units escapeUnit_def)
  moreover have "generateAnonymousId example_platform (js ''u1'') (js ''c1'') = js ''Anon_digest''"
    by (simp add: generateAnonymousId_def sha256_def example_platform_def substring_def js_def)
  ultimately show ?thesis
    by (simp add: createMessage_def classMessage_create_def classMessage_text_def
          classMessage_encoded_def isHighSurrogate_def isLowSurrogate_def
          userClass_findUnique_def class_examples)
qed

text \<open>
  An enrolled user posts 251 characters \<open><\<close>: the content is not empty after \<open>trim\<close> and
  far shorter than 1000 characters, and yet the post is refused, because the length that
  the service checks is that of the escaped text, four characters for each \<open><\<close>.
\<close>

theorem createMessage_escaped_length_counterexample:
  "userClass_findUnique db_class (js ''u1'') (js ''c1'') = Some bob_in_cs3120
   \<and> length (trim angle_brackets) = 251
   \<and> createMessage example_platform 1000 (js ''m1'') (js ''u1'') (js ''c1'') angle_brackets None
        db_class
       = (Inl (Error ''Message content must be between 1 and 1000 characters''), db_class)"
proof -
  have enrolled: "userClass_findUnique db_class (js ''u1'') (js ''c1'') = Some bob_in_cs3120"
    by (simp add: userClass_findUnique_def class_examples)
  have units: "angle_brackets = replicate 251 60"
    by (simp add: angle_brackets_def lt_unit)
  have trimmed: "trim angle_brackets = angle_brackets"
    unfolding units using entity_units_visible by (intro trim_visible_ends) simp_all
  have "length (escapeMarkup (trim angle_brackets)) = 1004"
    unfolding trimmed unfolding units by (simp add: escapeMarkup_replicate_lt)
  then have "length (escapeMarkup (trim angle_brackets)) > 1000" by simp
  then show ?thesis
    using enrolled trimmed createMessage_invalid [OF enrolled, of angle_brackets]
    by (simp add: angle_brackets_def)
qed

text \<open>
  C2, as amended. For every enrolled caller, \<open>createMessage\<close> throws its validation error
  exactly when the content is empty after \<open>trim\<close> or the trimmed content with every \<open><\<close>
  and \<open>>\<close> escaped (to \<open>&lt;\<close> and \<open>&gt;\<close>) is longer than 1000 characters, and then the
  store is as before. Otherwise, when the store takes the row as it is (its text, the
  escaped content included, has no NUL character and no lone surrogate, its identifier
  is fresh, and user, class and parent message exist), it creates and returns the
  \<open>ClassMessage\<close> with the trimmed and escaped content, which contains neither \<open><\<close> nor
  \<open>>\<close>, with \<open>flaggedCount = 0\<close> and \<open>hidden = false\<close>.
\<close>

theorem createMessage_validation:
  "userClass_findUnique d userId classId = Some enrollment \<longrightarrow>
     (fst (createMessage P now uuid userId classId content parentMessageId d)
          = Inl (Error ''Message content must be between 1 and 1000 characters'')
        \<longleftrightarrow> trim content = [] \<or> length (escapeMarkup (trim content)) > 1000)
     \<and> (trim content = [] \<or> length (escapeMarkup (trim content)) > 1000 \<longrightarrow>
          snd (createMessage P now uuid userId classId content parentMessageId d) = d)
     \<and> (trim content \<noteq> [] \<and> length (escapeMarkup (trim content)) \<le> 1000
          \<and> message = \<lparr>classMessage_id = uuid, classMessage_classId = classId,
                         classMessage_userId = userId,
                         classMessage_anonymousIdentifier = generateAnonymousId P userId classId,
                         classMessage_content = escapeMarkup (trim content),
                         classMessage_parentMessageId = parentMessageId,
                         classMessage_createdAt = now, classMessage_updatedAt = now,
                         classMessage_flaggedCount = 0, classMessage_hidden = False\<rparr>
          \<and> accepts_message d message \<longrightarrow>
          createMessage P now uuid userId classId content parentMessageId d
            = (Inr message, d\<lparr>classMessages := classMessages d @ [message]\<rparr>)
          \<and> of_char CHR ''<'' \<notin> set (classMessage_content message)
          \<and> of_char CHR ''>'' \<notin> set (classMessage_content message))"
proof (intro impI conjI)
  assume enrolled: "userClass_findUnique d userId classId = Some enrollment"
  let ?r = "createMessage P now uuid userId classId content parentMessageId d"
  let ?bad = "trim content = [] \<or> length (escapeMarkup (trim content)) > 1000"
  let ?good = "trim content \<noteq> [] \<and> length (escapeMarkup (trim content)) \<le> 1000
          \<and> message = \<lparr>classMessage_id = uuid, classMessage_classId = classId,
                         classMessage_userId = userId,
                         classMessage_anonymousIdentifier = generateAnonymousId P userId classId,
                         classMessage_content = escapeMarkup (trim content),
                         classMessage_parentMessageId = parentMessageId,
                         classMessage_createdAt = now, classMessage_updatedAt = now,
                         classMessage_flaggedCount = 0, classMessage_hidden = False\<rparr>
          \<and> accepts_message d message"
  show "fst ?r = Inl (Error ''Message content must be between 1 and 1000 characters'') \<longleftrightarrow> ?bad"
  proof (cases ?bad)
    case True
    then show ?thesis using createMessage_invalid [OF enrolled] by simp
  next
    case False
    then have ok: "trim content \<noteq> []" "length (escapeMarkup (trim content)) \<le> 1000" by simp_all
    obtain row where r: "?r = (case classMessage_create d row of
                                 Inl e \<Rightarrow> (Inl e, d) | Inr (stored, d1) \<Rightarrow> (Inr stored, d1))"
      unfolding createMessage_valid [OF enrolled ok] by blast
    have "fst ?r \<noteq> Inl (Error ''Message content must be between 1 and 1000 characters'')"
      using classMessage_create_cases [of d row] unfolding r by auto
    with False show ?thesis by simp
  qed
  show "snd ?r = d" if ?bad
    using that createMessage_invalid [OF enrolled] by simp
  show "?r = (Inr message, d\<lparr>classMessages := classMessages d @ [message]\<rparr>)" if ?good
  proof -
    from that have ok: "trim content \<noteq> []" "length (escapeMarkup (trim content)) \<le> 1000"
      by blast+
    from that have acc: "accepts_message d message" by blast
    from that have "?r = (case classMessage_create d message of
                            Inl e \<Rightarrow> (Inl e, d) | Inr (stored, d1) \<Rightarrow> (Inr stored, d1))"
      unfolding createMessage_valid [OF enrolled ok] by blast
    then show ?thesis
      by (simp add: classMessage_create_accepts [OF acc])
  qed
  show "of_char CHR ''<'' \<notin> set (classMessage_content message)" if ?good
    using that escapeMarkup_no_markup [of "trim content"] by (simp add: lt_unit)
  show "of_char CHR ''>'' \<notin> set (classMessage_content message)" if ?good
    using that escapeMarkup_no_markup [of "trim content"] by (simp add: gt_unit)
qed

lemma trim_example: "trim (js ''  <b>hi</b> '') = js ''<b>hi</b>''"
  by (simp add: js_def trim_def trimStart_def trimEnd_def isWhiteSpace_def)

lemma trim_blank: "trim (js ''   '') = []"
  by (simp add: js_def trim_def trimStart_def trimEnd_def isWhiteSpace_def)

lemma escape_example: "escapeMarkup (js ''<b>hi</b>'') = js ''&lt;b&gt;hi&lt;/b&gt;''"
  by (simp add: js_def escapeMarkup_def replaceAll_def)

lemma anonymous_example:
  "generateAnonymousId example_platform (js ''u1'') (js ''c1'') = js ''Anon_digest''"
  by (simp add: generateAnonymousId_def sha256_def example_platform_def substring_def js_def)

theorem createMessage_validation_witness:
  "createMessage example_platform 1000 (js ''m1'') (js ''u1'') (js ''c1'') (js ''  <b>hi</b> '') None
      db_class
      = (Inr (hd (classMessages db_posted)), db_posted)
   \<and> classMessage_content (hd (classMessages db_posted)) = js ''&lt;b&gt;hi&lt;/b&gt;''
   \<and> createMessage example_platform 1000 (js ''m1'') (js ''u1'') (js ''c1'') (js ''   '') None
      db_class
      = (Inl (Error ''Message content must be between 1 and 1000 characters''), db_class)"
proof -
  let ?m = "hd (classMessages db_posted)"
  have enrolled: "userClass_findUnique db_class (js ''u1'') (js ''c1'') = Some bob_in_cs3120"
    by (simp add: userClass_findUnique_def class_examples)
  have row: "?m = \<lparr>classMessage_id = js ''m1'', classMessage_classId = js ''c1'',
                    classMessage_userId = js ''u1'',
                    classMessage_anonymousIdentifier
                      = generateAnonymousId example_platform (js ''u1'') (js ''c1''),
                    classMessage_content = escapeMarkup (trim (js ''  <b>hi</b> '')),
                    classMessage_parentMessageId = None,
                    classMessage_createdAt = 1000, classMessage_updatedAt = 1000,
                    classMessage_flaggedCount = 0, classMessage_hidden = False\<rparr>"
    unfolding trim_example escape_example anonymous_example by (simp add: db_posted_def)
  have accepted: "accepts_message db_class ?m"
    by (simp add: accepts_message_def classMessage_text_def storable_def
          isHighSurrogate_def isLowSurrogate_def class_examples)
  have good: "trim (js ''  <b>hi</b> '') \<noteq> []
      \<and> length (escapeMarkup (trim (js ''  <b>hi</b> ''))) \<le> 1000"
    unfolding trim_example escape_example by (simp add: js_def)
  have bad: "trim (js ''   '') = [] \<or> length (escapeMarkup (trim (js ''   ''))) > 1000"
    by (simp add: trim_blank)
  have posted: "db_class\<lparr>classMessages := classMessages db_class @ [?m]\<rparr> = db_posted"
    by (simp add: class_examples)
  have a: "createMessage example_platform 1000 (js ''m1'') (js ''u1'') (js ''c1'')
             (js ''  <b>hi</b> '') None db_class = (Inr ?m, db_posted)"
    using good enrolled row accepted posted
      createMessage_validation [where P = example_platform and now = 1000 and uuid = "js ''m1''"
        and userId = "js ''u1''" and classId = "js ''c1''" and content = "js ''  <b>hi</b> ''"
        and parentMessageId = None and d = db_class and enrollment = bob_in_cs3120
        and message = ?m]
    by simp
  have b: "createMessage example_platform 1000 (js ''m1'') (js ''u1'') (js ''c1'') (js ''   '') None
      db_class
      = (Inl (Error ''Message content must be between 1 and 1000 characters''), db_class)"
    using bad enrolled
      createMessage_validation [where P = example_platform and now = 1000 and uuid = "js ''m1''"
        and userId = "js ''u1''" and classId = "js ''c1''" and content = "js ''   ''"
        and parentMessageId = None and d = db_class and enrollment = bob_in_cs3120]
    by (metis prod.collapse)
  have c: "classMessage_content ?m = js ''&lt;b&gt;hi&lt;/b&gt;''"
    by (simp add: db_posted_def)
  show ?thesis using a b c by simp
qed

section \<open>Flagging a message\<close>








section \<open>Listing the messages of a class\<close>

lemma getClassMessages_rows:
  "map msg_row (fst (getClassMessages classId limit offset d))
     = take limit (drop offset (orderBy_createdAt_desc
         (filter (\<lambda>m. classMessage_classId m = classId \<and> \<not> classMessage_hidden m)
            (classMessages d))))"
  by (simp add: getClassMessages_def Let_def comp_def)

text \<open>What holds of every list: only visible messages of the class are returned, newest
  first, and the replies attached to a message are at most five of its visible replies.\<close>

lemma getClassMessages_not_hidden:
  assumes "x \<in> set (fst (getClassMessages classId limit offset d))"
  shows "\<not> classMessage_hidden (msg_row x) \<and> classMessage_classId (msg_row x) = classId
         \<and> msg_row x \<in> set (classMessages d)"
proof -
  have "msg_row x \<in> set (map msg_row (fst (getClassMessages classId limit offset d)))"
    using assms by simp
  then have "msg_row x \<in> set (orderBy_createdAt_desc
         (filter (\<lambda>m. classMessage_classId m = classId \<and> \<not> classMessage_hidden m)
            (classMessages d)))"
    unfolding getClassMessages_rows by (meson in_set_dropD in_set_takeD)
  then show ?thesis by (simp add: orderBy_createdAt_desc_def)
qed

lemma getClassMessages_newest_first:
  "sorted (map (\<lambda>x. - classMessage_createdAt (msg_row x))
             (fst (getClassMessages classId limit offset d)))"
proof -
  let ?v = "filter (\<lambda>m. classMessage_classId m = classId \<and> \<not> classMessage_hidden m)
              (classMessages d)"
  have "map (\<lambda>x. - classMessage_createdAt (msg_row x)) (fst (getClassMessages classId limit offset d))
       = map (\<lambda>m. - classMessage_createdAt m)
           (map msg_row (fst (getClassMessages classId limit offset d)))"
    by (simp add: comp_def)
  also have "\<dots> = take limit (drop offset
                     (map (\<lambda>m. - classMessage_createdAt m) (orderBy_createdAt_desc ?v)))"
    unfolding getClassMessages_rows by (simp add: take_map drop_map)
  finally show ?thesis
    by (simp add: orderBy_createdAt_desc_def sorted_wrt_take sorted_wrt_drop)
qed

lemma getClassMessages_replyCount:
  assumes "x \<in> set (fst (getClassMessages classId limit offset d))"
  shows "length (msg_replies x)
     = min 5 (length (filter (\<lambda>r. classMessage_parentMessageId r = Some (classMessage_id (msg_row x))
                                  \<and> \<not> classMessage_hidden r) (classMessages d)))"
  using assms
  by (auto simp: getClassMessages_def Let_def include_replies_def
        dest!: in_set_takeD in_set_dropD)

text \<open>
  C6. The list returns only messages with \<open>hidden = false\<close>, newest first, each with a
  reply count equal to the number of its visible replies. The count that the code
  returns is the length of the included \<open>replies\<close>, and the query includes at most five
  (\<open>take: 5\<close>): for Bob's message \<open>m0\<close>, which has six visible replies, the list shows a
  reply count of 5.
\<close>

theorem getClassMessages_replyCount_capped:
  "length (filter (\<lambda>r. classMessage_parentMessageId r = Some (js ''m0'') \<and> \<not> classMessage_hidden r)
             (classMessages db_thread)) = 6
   \<and> (case messagesController_getClassMessages (js ''u1'') (js ''c1'') None None db_thread of
         Forbidden403 \<Rightarrow> []
       | Success200 views pagination \<Rightarrow> map (\<lambda>v. (view_id v, view_replyCount v)) views)
      = [(js ''r6'', 0), (js ''r5'', 0), (js ''r4'', 0), (js ''r3'', 0), (js ''r2'', 0),
         (js ''r1'', 0), (js ''m0'', 5)]"
  by (simp add: messagesController_getClassMessages_def getClassMessages_def
        isUserEnrolledInClass_def userClass_findUnique_def orderBy_createdAt_desc_def
        include_replies_def class_examples)

end
